theory Spec2Isabelle
  imports Complex_Main "HOL-Library.Multiset"
begin

section \<open>Errors and Python helpers\<close>

text \<open>
  Exceptions of the Python source are values: every function that can raise returns
  \<open>error + 'a\<close>, with \<open>Inl\<close> for the exception.  \<open>CollaboratorError\<close> stands for
  whatever an external collaborator (the pretrained encoder, the recurrent network)
  raises on its own.
\<close>

datatype error =
    ZeroDivisionError
  | KeyError string
  | IndexError
  | RuntimeError
  | ValueError
  | TypeError
  | AttributeError
  | AssertionError
  | CollaboratorError

text \<open>
  \<open>xs[a:b]\<close> on a Python sequence or a one-dimensional tensor: negative bounds count
  from the end, and both bounds are clamped to the length.
\<close>

definition py_slice :: "'a list \<Rightarrow> int \<Rightarrow> int \<Rightarrow> 'a list" where
  "py_slice xs a b =
     (let n = int (length xs);
          lo = (if a < 0 then max (a + n) 0 else min a n);
          hi = (if b < 0 then max (b + n) 0 else min b n)
      in take (nat (hi - lo)) (drop (nat lo) xs))"

text \<open>\<open>range(k)\<close> for a Python integer \<open>k\<close>: empty when \<open>k \<le> 0\<close>.\<close>

definition py_range :: "int \<Rightarrow> int list" where
  "py_range k = map int [0..<nat k]"

section \<open>The training controller's \<open>fit\<close> loop\<close>

text \<open>
  The fields of \<open>BertController\<close> that \<open>fit\<close>, \<open>train\<close> and \<open>validate\<close> read.
  They are Python integers (argparse hands over any \<open>int\<close>).
\<close>

record controller =
  batch_size :: int
  validate_every_n_steps :: int
  early_stopping_rounds :: int

text \<open>The dictionary \<open>validate\<close> returns.\<close>

record metrics =
  loss :: real
  accuracy :: real

text \<open>
  What \<open>fit\<close> writes with \<open>logging.info\<close> after each miniset, kept as a ghost log:
  the subset it trained on, a skipped validation (with the subset's size), a validation
  (with its accuracy).
\<close>

datatype event =
    Trained "nat list"
  | Skipped nat
  | Validated real

text \<open>
  The local variables of \<open>fit\<close>, the state \<open>'w\<close> of everything else (model parameters,
  optimizer, random generator, train/eval mode), and the log.
\<close>

record 'w fit_state =
  best_dev_acc :: real
  rounds_no_increase :: int
  stop_early :: bool
  world :: 'w
  trace :: "event list"

text \<open>Lines 251--257: the bookkeeping after a validation that returned accuracy \<open>acc\<close>.\<close>

definition record_validation :: "real \<Rightarrow> 'w fit_state \<Rightarrow> 'w fit_state" where
  "record_validation acc st =
     (if acc > best_dev_acc st
      then st\<lparr>best_dev_acc := acc, rounds_no_increase := 0\<rparr>
      else st\<lparr>rounds_no_increase := rounds_no_increase st + 1\<rparr>)"

text \<open>Line 235: the number of minisets of an epoch; the floor division raises on 0.\<close>

definition num_minisets :: "controller \<Rightarrow> nat \<Rightarrow> error + int" where
  "num_minisets c train_len =
     (if validate_every_n_steps c = 0 then Inl ZeroDivisionError
      else Inr ((int train_len + validate_every_n_steps c - 1) div validate_every_n_steps c))"

text \<open>Lines 238--239: the indices of miniset \<open>idx_miniset\<close> of the epoch's permutation.\<close>

definition miniset :: "controller \<Rightarrow> nat list \<Rightarrow> int \<Rightarrow> nat list" where
  "miniset c shuffled_indices idx_miniset =
     py_slice shuffled_indices (idx_miniset * validate_every_n_steps c)
       ((idx_miniset + 1) * validate_every_n_steps c)"

text \<open>Line 244: the test that skips the validation after a miniset.\<close>

definition skips_validation :: "controller \<Rightarrow> 'd option \<Rightarrow> nat list \<Rightarrow> bool" where
  "skips_validation c dev_dataset curr_subset \<longleftrightarrow>
     dev_dataset = None \<or> int (length curr_subset) < validate_every_n_steps c div 2"

text \<open>
  The inner loop of \<open>fit\<close> (lines 236--263) over the remaining miniset numbers.
  \<open>train\<close> and \<open>validate\<close> are the controller's methods, passed in: each takes the
  world and returns its result with the new world, or raises.
\<close>

fun miniset_loop ::
  "(nat list \<Rightarrow> 'w \<Rightarrow> error + real \<times> 'w) \<Rightarrow> ('d \<Rightarrow> 'w \<Rightarrow> error + metrics \<times> 'w) \<Rightarrow>
   controller \<Rightarrow> 'd option \<Rightarrow> nat list \<Rightarrow> int list \<Rightarrow> 'w fit_state \<Rightarrow> error + 'w fit_state"
where
  "miniset_loop train validate c dev_dataset shuffled_indices [] st = Inr st"
| "miniset_loop train validate c dev_dataset shuffled_indices (idx_miniset # rest) st =
     (let curr_subset = miniset c shuffled_indices idx_miniset in
      case train curr_subset (world st) of
        Inl e \<Rightarrow> Inl e
      | Inr (train_loss, w1) \<Rightarrow>
          let st1 = st\<lparr>world := w1, trace := trace st @ [Trained curr_subset]\<rparr> in
          if skips_validation c dev_dataset curr_subset
          then miniset_loop train validate c dev_dataset shuffled_indices rest
                 (st1\<lparr>trace := trace st1 @ [Skipped (length curr_subset)]\<rparr>)
          else
            (case validate (the dev_dataset) w1 of
               Inl e \<Rightarrow> Inl e
             | Inr (dev_metrics, w2) \<Rightarrow>
                 let st2 = record_validation (accuracy dev_metrics)
                             (st1\<lparr>world := w2, trace := trace st1 @ [Validated (accuracy dev_metrics)]\<rparr>) in
                 if rounds_no_increase st2 = early_stopping_rounds c
                 then Inr (st2\<lparr>stop_early := True\<rparr>)
                 else miniset_loop train validate c dev_dataset shuffled_indices rest st2))"

text \<open>
  The outer loop (lines 231--266) over the remaining epochs.  \<open>randperm\<close> is
  \<open>torch.randperm\<close>, drawing from the generator in the world.
\<close>

fun epoch_loop ::
  "(nat list \<Rightarrow> 'w \<Rightarrow> error + real \<times> 'w) \<Rightarrow> ('d \<Rightarrow> 'w \<Rightarrow> error + metrics \<times> 'w) \<Rightarrow>
   (nat \<Rightarrow> 'w \<Rightarrow> nat list \<times> 'w) \<Rightarrow>
   controller \<Rightarrow> nat \<Rightarrow> 'd option \<Rightarrow> int list \<Rightarrow> 'w fit_state \<Rightarrow> error + 'w fit_state"
where
  "epoch_loop train validate randperm c train_len dev_dataset [] st = Inr st"
| "epoch_loop train validate randperm c train_len dev_dataset (idx_epoch # rest) st =
     (case randperm train_len (world st) of
        (shuffled_indices, w1) \<Rightarrow>
          (case num_minisets c train_len of
             Inl e \<Rightarrow> Inl e
           | Inr k \<Rightarrow>
               (case miniset_loop train validate c dev_dataset shuffled_indices (py_range k)
                       (st\<lparr>world := w1\<rparr>) of
                  Inl e \<Rightarrow> Inl e
                | Inr st' \<Rightarrow>
                    if stop_early st' then Inr st'
                    else epoch_loop train validate randperm c train_len dev_dataset rest st')))"

text \<open>
  \<open>fit\<close> (lines 226--268).  \<open>train_len\<close> is \<open>len(train_dataset)\<close>; the final state is
  returned so that the run can be observed (the Python returns \<open>None\<close>).
\<close>

definition fit ::
  "(nat list \<Rightarrow> 'w \<Rightarrow> error + real \<times> 'w) \<Rightarrow> ('d \<Rightarrow> 'w \<Rightarrow> error + metrics \<times> 'w) \<Rightarrow>
   (nat \<Rightarrow> 'w \<Rightarrow> nat list \<times> 'w) \<Rightarrow>
   controller \<Rightarrow> nat \<Rightarrow> int \<Rightarrow> 'd option \<Rightarrow> 'w \<Rightarrow> error + 'w fit_state"
where
  "fit train validate randperm c train_len num_epochs dev_dataset w =
     epoch_loop train validate randperm c train_len dev_dataset (py_range num_epochs)
       \<lparr>best_dev_acc = 0, rounds_no_increase = 0, stop_early = False, world = w, trace = []\<rparr>"

text \<open>The accuracies of the validations of a log, in order.\<close>

fun validations :: "event list \<Rightarrow> real list" where
  "validations [] = []"
| "validations (Validated a # es) = a # validations es"
| "validations (_ # es) = validations es"

text \<open>
  The early-stopping bookkeeping replayed on a list of accuracies: the pair
  (best accuracy, non-improvement counter), starting from \<open>(0, 0)\<close>.
\<close>

definition es_step :: "real \<times> int \<Rightarrow> real \<Rightarrow> real \<times> int" where
  "es_step s acc = (if acc > fst s then (acc, 0) else (fst s, snd s + 1))"

definition es_replay :: "real list \<Rightarrow> real \<times> int" where
  "es_replay accs = foldl es_step (0, 0) accs"

text \<open>
  The invariant of a run of \<open>fit\<close>: the two local variables are the replay of the
  validations made so far, and the counter never stood at the threshold after an earlier
  validation (the run would have stopped there).
\<close>

definition fit_inv :: "controller \<Rightarrow> 'w fit_state \<Rightarrow> bool" where
  "fit_inv c st \<longleftrightarrow>
     (best_dev_acc st, rounds_no_increase st) = es_replay (validations (trace st)) \<and>
     (\<forall>k. 0 < k \<and> k < length (validations (trace st)) \<longrightarrow>
          snd (es_replay (take k (validations (trace st)))) \<noteq> early_stopping_rounds c)"

text \<open>A run that goes on, and a run that has stopped early, right after a validation.\<close>

definition running :: "controller \<Rightarrow> 'w fit_state \<Rightarrow> bool" where
  "running c st \<longleftrightarrow>
     \<not> stop_early st \<and>
     (validations (trace st) \<noteq> [] \<longrightarrow> rounds_no_increase st \<noteq> early_stopping_rounds c)"

definition stopped :: "controller \<Rightarrow> 'w fit_state \<Rightarrow> bool" where
  "stopped c st \<longleftrightarrow>
     stop_early st \<and> rounds_no_increase st = early_stopping_rounds c \<and>
     (\<exists>pre a. trace st = pre @ [Validated a])"

text \<open>The subsets trained on, in order.\<close>

fun trained :: "event list \<Rightarrow> nat list list" where
  "trained [] = []"
| "trained (Trained s # es) = s # trained es"
| "trained (_ # es) = trained es"

text \<open>
  A log in which every trained miniset is followed by a skipped validation when line 244
  says so, and by a validation otherwise.
\<close>

fun trace_ok :: "controller \<Rightarrow> 'd option \<Rightarrow> event list \<Rightarrow> bool" where
  "trace_ok c dev [] = True"
| "trace_ok c dev (Trained s # Skipped k # es) =
     (skips_validation c dev s \<and> k = length s \<and> trace_ok c dev es)"
| "trace_ok c dev (Trained s # Validated a # es) =
     (\<not> skips_validation c dev s \<and> trace_ok c dev es)"
| "trace_ok c dev _ = False"

section \<open>Example collaborators\<close>

text \<open>
  Concrete stand-ins for the methods \<open>fit\<close> calls, used to run the model: training that
  leaves the world (a counter of validations) alone, a validation that reads its accuracy
  from a script (the development set is the list of accuracies it will yield), and a
  permutation that reverses the indices.
\<close>

definition example_train :: "nat list \<Rightarrow> nat \<Rightarrow> error + real \<times> nat" where
  "example_train curr_subset w = Inr (0, w)"

definition example_validate :: "real list \<Rightarrow> nat \<Rightarrow> error + metrics \<times> nat" where
  "example_validate accs w =
     Inr (\<lparr>loss = 0, accuracy = (if w < length accs then accs ! w else 0)\<rparr>, Suc w)"

definition example_randperm :: "nat \<Rightarrow> nat \<Rightarrow> nat list \<times> nat" where
  "example_randperm n w = (rev [0..<n], w)"

definition example_controller :: "int \<Rightarrow> int \<Rightarrow> controller" where
  "example_controller n rounds =
     \<lparr>batch_size = 16, validate_every_n_steps = n, early_stopping_rounds = rounds\<rparr>"

section \<open>Tensors\<close>

text \<open>
  A tensor is its shape and its entries, read at an index (one coordinate per dimension).
  Only the entries at indices inside the shape mean anything.  Floating-point entries
  are modelled as real numbers: rounding, infinities and NaN are outside the model.
\<close>

record 'a tensor =
  shape :: "nat list"
  entry :: "nat list \<Rightarrow> 'a"

text \<open>The indices inside a shape, in row-major order.\<close>

fun indices :: "nat list \<Rightarrow> nat list list" where
  "indices [] = [[]]"
| "indices (d # ds) = concat (map (\<lambda>i. map ((#) i) (indices ds)) [0..<d])"

text \<open>
  A dimension argument \<open>dim\<close> of a tensor of rank \<open>r\<close>: negative values count from the
  end, anything outside \<open>[-r, r)\<close> raises.
\<close>

definition norm_dim :: "int \<Rightarrow> nat \<Rightarrow> error + nat" where
  "norm_dim d r =
     (let d' = (if d < 0 then d + int r else d)
      in if 0 \<le> d' \<and> d' < int r then Inr (nat d') else Inl IndexError)"

text \<open>\<open>t.unsqueeze(d)\<close>: a new dimension of size 1 at position \<open>d\<close>, \<open>d\<close> in \<open>[-r-1, r]\<close>.\<close>

definition unsqueeze :: "int \<Rightarrow> 'a tensor \<Rightarrow> error + 'a tensor" where
  "unsqueeze d t =
     (case norm_dim d (Suc (length (shape t))) of
        Inl e \<Rightarrow> Inl e
      | Inr k \<Rightarrow>
          Inr \<lparr>shape = take k (shape t) @ [1] @ drop k (shape t),
               entry = (\<lambda>idx. entry t (take k idx @ drop (Suc k) idx))\<rparr>)"

text \<open>
  Broadcasting: shapes are aligned at their last dimension; two sizes are compatible
  when they are equal or one of them is 1.  \<open>broadcast_shapes\<close> works on the reversed
  shapes and returns the reversed shape of the result.
\<close>

fun broadcast_shapes :: "nat list \<Rightarrow> nat list \<Rightarrow> nat list option" where
  "broadcast_shapes [] ys = Some ys"
| "broadcast_shapes xs [] = Some xs"
| "broadcast_shapes (x # xs) (y # ys) =
     (if x = y \<or> y = 1 then map_option ((#) x) (broadcast_shapes xs ys)
      else if x = 1 then map_option ((#) y) (broadcast_shapes xs ys)
      else None)"

text \<open>The index at which an operand of shape \<open>s\<close> is read for the index \<open>idx\<close> of the result.\<close>

definition broadcast_index :: "nat list \<Rightarrow> nat list \<Rightarrow> nat list" where
  "broadcast_index s idx =
     map2 (\<lambda>d i. if d = 1 then 0 else i) s (drop (length idx - length s) idx)"

text \<open>\<open>a * b\<close> on tensors.\<close>

definition tmul :: "real tensor \<Rightarrow> real tensor \<Rightarrow> error + real tensor" where
  "tmul a b =
     (case broadcast_shapes (rev (shape a)) (rev (shape b)) of
        None \<Rightarrow> Inl RuntimeError
      | Some rs \<Rightarrow>
          Inr \<lparr>shape = rev rs,
               entry = (\<lambda>idx. entry a (broadcast_index (shape a) idx) * entry b (broadcast_index (shape b) idx))\<rparr>)"

text \<open>\<open>torch.sum(t, dim=d)\<close>: the dimension is summed away.\<close>

definition tsum :: "int \<Rightarrow> real tensor \<Rightarrow> error + real tensor" where
  "tsum d t =
     (case norm_dim d (length (shape t)) of
        Inl e \<Rightarrow> Inl e
      | Inr k \<Rightarrow>
          Inr \<lparr>shape = take k (shape t) @ drop (Suc k) (shape t),
               entry = (\<lambda>idx. sum_list (map (\<lambda>i. entry t (take k idx @ [i] @ drop k idx))
                                         [0..<shape t ! k]))\<rparr>)"

text \<open>\<open>F.softmax(t, dim=d)\<close>: the exponentials, normalised along the dimension.\<close>

definition softmax :: "int \<Rightarrow> real tensor \<Rightarrow> error + real tensor" where
  "softmax d t =
     (case norm_dim d (length (shape t)) of
        Inl e \<Rightarrow> Inl e
      | Inr k \<Rightarrow>
          Inr \<lparr>shape = shape t,
               entry = (\<lambda>idx. exp (entry t idx) /
                             sum_list (map (\<lambda>i. exp (entry t (idx[k := i]))) [0..<shape t ! k]))\<rparr>)"

text \<open>
  \<open>nn.Linear(in_features, out_features)\<close>: the weight is read as \<open>weight out in\<close>.  It
  applies to the last dimension, which has to be \<open>in_features\<close>.
\<close>

record linear =
  in_features :: nat
  out_features :: nat
  weight :: "nat \<Rightarrow> nat \<Rightarrow> real"
  bias :: "nat \<Rightarrow> real"

definition linear_forward :: "linear \<Rightarrow> real tensor \<Rightarrow> error + real tensor" where
  "linear_forward l x =
     (if shape x = [] \<or> last (shape x) \<noteq> in_features l then Inl RuntimeError
      else Inr \<lparr>shape = butlast (shape x) @ [out_features l],
                entry = (\<lambda>idx. sum_list (map (\<lambda>i. entry x (butlast idx @ [i]) * weight l (last idx) i)
                                          [0..<in_features l])
                             + bias l (last idx))\<rparr>)"

text \<open>
  \<open>torch.cat((a, b), dim=k)\<close> for two tensors, and for a list (an empty list raises).
  The shapes have to agree outside dimension \<open>k\<close>.
\<close>

definition cat2 :: "nat \<Rightarrow> 'a tensor \<Rightarrow> 'a tensor \<Rightarrow> error + 'a tensor" where
  "cat2 k a b =
     (if \<not> k < length (shape a) then Inl IndexError
      else if length (shape a) \<noteq> length (shape b) \<or> take k (shape a) \<noteq> take k (shape b)
              \<or> drop (Suc k) (shape a) \<noteq> drop (Suc k) (shape b) then Inl RuntimeError
      else Inr \<lparr>shape = (shape a)[k := shape a ! k + shape b ! k],
                entry = (\<lambda>idx. if idx ! k < shape a ! k then entry a idx
                             else entry b (idx[k := idx ! k - shape a ! k]))\<rparr>)"

fun cat :: "nat \<Rightarrow> 'a tensor list \<Rightarrow> error + 'a tensor" where
  "cat k [] = Inl RuntimeError"
| "cat k [t] = (if k < length (shape t) then Inr t else Inl IndexError)"
| "cat k (t # ts) = (case cat k ts of Inl e \<Rightarrow> Inl e | Inr r \<Rightarrow> cat2 k t r)"

text \<open>
  \<open>F.dropout(x, p)\<close> with its default \<open>training=True\<close>: every entry is zeroed with
  probability \<open>p\<close> and the kept ones are scaled by \<open>1 / (1 - p)\<close>.  The random choice is
  the argument \<open>keep\<close>.  A probability outside \<open>[0, 1]\<close> raises.
\<close>

definition F_dropout :: "real \<Rightarrow> (nat list \<Rightarrow> bool) \<Rightarrow> real tensor \<Rightarrow> error + real tensor" where
  "F_dropout p keep x =
     (if p < 0 \<or> 1 < p then Inl ValueError
      else Inr \<lparr>shape = shape x,
                entry = (\<lambda>idx. if p = 0 then entry x idx
                             else if p = 1 then 0
                             else if keep idx then entry x idx / (1 - p) else 0)\<rparr>)"

section \<open>Pooling strategies\<close>

text \<open>
  The three pooler classes, with their constructor arguments.  The recurrent network of
  \<open>LSTMPooler\<close> is an external collaborator: a function from the data to the last hidden
  state of shape \<open>[1, B, hidden_size]\<close>, or an error.
\<close>

datatype pooler =
    MaskedMeanPooler int
  | WeightedSumPooler linear int
  | LSTMPooler nat "real tensor \<Rightarrow> error + real tensor"

text \<open>\<open>MaskedMeanPooler.forward\<close> (lines 45--49).\<close>

definition masked_mean_forward :: "int \<Rightarrow> real tensor \<Rightarrow> real tensor \<Rightarrow> error + real tensor" where
  "masked_mean_forward sdim data masks =
     (case unsqueeze 2 masks of
        Inl e \<Rightarrow> Inl e
      | Inr m \<Rightarrow>
          (case tmul data m of
             Inl e \<Rightarrow> Inl e
           | Inr masked_data \<Rightarrow> tsum sdim masked_data))"

text \<open>\<open>WeightedSumPooler.forward\<close> (lines 60--65); \<open>masks\<close> is not read.\<close>

definition weighted_sum_forward ::
  "linear \<Rightarrow> int \<Rightarrow> real tensor \<Rightarrow> real tensor \<Rightarrow> error + real tensor" where
  "weighted_sum_forward lin sdim data masks =
     (case linear_forward lin data of
        Inl e \<Rightarrow> Inl e
      | Inr scores \<Rightarrow>
          (case softmax sdim scores of
             Inl e \<Rightarrow> Inl e
           | Inr weights \<Rightarrow>
               (case tmul weights data of
                  Inl e \<Rightarrow> Inl e
                | Inr weighted \<Rightarrow> tsum sdim weighted)))"

text \<open>
  \<open>t[0]\<close>: the first slice along the first dimension.
\<close>

definition select0 :: "'a tensor \<Rightarrow> error + 'a tensor" where
  "select0 t =
     (case shape t of
        [] \<Rightarrow> Inl IndexError
      | d # ds \<Rightarrow> if d = 0 then Inl IndexError
                  else Inr \<lparr>shape = ds, entry = (\<lambda>idx. entry t (0 # idx))\<rparr>)"

text \<open>
  \<open>LSTMPooler.forward\<close> (lines 75--82): unpacking \<open>masks.shape\<close> into two names raises
  unless the mask has two dimensions; the mask is not used otherwise.
\<close>

definition lstm_forward ::
  "(real tensor \<Rightarrow> error + real tensor) \<Rightarrow> real tensor \<Rightarrow> real tensor \<Rightarrow> error + real tensor" where
  "lstm_forward lstm data masks =
     (if length (shape masks) \<noteq> 2 then Inl ValueError
      else case lstm data of
             Inl e \<Rightarrow> Inl e
           | Inr last_hidden \<Rightarrow> select0 last_hidden)"

fun pooler_forward :: "pooler \<Rightarrow> real tensor \<Rightarrow> real tensor \<Rightarrow> error + real tensor" where
  "pooler_forward (MaskedMeanPooler sdim) data masks = masked_mean_forward sdim data masks"
| "pooler_forward (WeightedSumPooler lin sdim) data masks = weighted_sum_forward lin sdim data masks"
| "pooler_forward (LSTMPooler hidden_size lstm) data masks = lstm_forward lstm data masks"

text \<open>
  The weighted-sum pooling as the specification words it: the score of position \<open>t\<close> of
  example \<open>b\<close> under the learned linear map, and its softmax weight over the \<open>T\<close>
  positions of the sequence.
\<close>

definition ws_score :: "linear \<Rightarrow> real tensor \<Rightarrow> nat \<Rightarrow> nat \<Rightarrow> nat \<Rightarrow> real" where
  "ws_score lin data E b t = (\<Sum>i<E. entry data [b, t, i] * weight lin 0 i) + bias lin 0"

definition ws_weight :: "linear \<Rightarrow> real tensor \<Rightarrow> nat \<Rightarrow> nat \<Rightarrow> nat \<Rightarrow> nat \<Rightarrow> real" where
  "ws_weight lin data T E b t =
     exp (ws_score lin data E b t) / (\<Sum>j<T. exp (ws_score lin data E b j))"

text \<open>Tensors of rank 2 and 3 written as nested lists, for the examples.\<close>

definition tensor2 :: "'a list list \<Rightarrow> 'a tensor" where
  "tensor2 rows =
     \<lparr>shape = [length rows, (case rows of [] \<Rightarrow> 0 | r # _ \<Rightarrow> length r)],
      entry = (\<lambda>idx. rows ! (idx ! 0) ! (idx ! 1))\<rparr>"

definition tensor3 :: "'a list list list \<Rightarrow> 'a tensor" where
  "tensor3 blocks =
     \<lparr>shape = [length blocks,
               (case blocks of [] \<Rightarrow> 0 | b # _ \<Rightarrow> length b),
               (case blocks of [] \<Rightarrow> 0 | b # _ \<Rightarrow> (case b of [] \<Rightarrow> 0 | r # _ \<Rightarrow> length r))],
      entry = (\<lambda>idx. blocks ! (idx ! 0) ! (idx ! 1) ! (idx ! 2))\<rparr>"

definition example_linear :: linear where
  "example_linear = \<lparr>in_features = 2, out_features = 1, weight = (\<lambda>out i. 0), bias = (\<lambda>out. 0)\<rparr>"

section \<open>The fusion classifier\<close>

subsection \<open>Embedding tables\<close>

text \<open>
  \<open>nn.Embedding(num_embeddings, embedding_dim, padding_idx)\<close>.  The constructor refuses a
  padding index outside the table and zeroes the row of the padding index; \<open>init\<close> is
  the random initial table.
\<close>

record embedding =
  num_embeddings :: nat
  embedding_dim :: nat
  padding_idx :: nat
  table :: "nat \<Rightarrow> nat \<Rightarrow> real"

definition nn_Embedding :: "nat \<Rightarrow> nat \<Rightarrow> nat \<Rightarrow> (nat \<Rightarrow> nat \<Rightarrow> real) \<Rightarrow> error + embedding" where
  "nn_Embedding n dim_e pad init =
     (if \<not> pad < n then Inl AssertionError
      else Inr \<lparr>num_embeddings = n, embedding_dim = dim_e, padding_idx = pad,
                table = (\<lambda>v j. if v = pad then 0 else init v j)\<rparr>)"

text \<open>The lookup: one row per id; an id outside the table raises.\<close>

definition embedding_forward :: "embedding \<Rightarrow> int tensor \<Rightarrow> error + real tensor" where
  "embedding_forward emb ids =
     (if \<exists>idx \<in> set (indices (shape ids)). entry ids idx < 0 \<or> int (num_embeddings emb) \<le> entry ids idx
      then Inl IndexError
      else Inr \<lparr>shape = shape ids @ [embedding_dim emb],
                entry = (\<lambda>idx. table emb (nat (entry ids (butlast idx))) (last idx))\<rparr>)"

text \<open>An integer tensor used in floating-point arithmetic.\<close>

definition to_real :: "int tensor \<Rightarrow> real tensor" where
  "to_real t = \<lparr>shape = shape t, entry = (\<lambda>idx. real_of_int (entry t idx))\<rparr>"

subsection \<open>Collaborators\<close>

text \<open>
  The random generator is the stream of the dropout masks it will draw.  The pretrained
  encoder is external: it knows its hidden size and maps the three input tensors, in
  training or evaluation mode, to its pooled output (and the generator it leaves), or
  raises.
\<close>

type_synonym generator = "nat \<Rightarrow> nat list \<Rightarrow> bool"

record encoder =
  hidden_size :: nat
  run :: "bool \<Rightarrow> generator \<Rightarrow> int tensor \<Rightarrow> int tensor \<Rightarrow> int tensor \<Rightarrow>
          error + real tensor \<times> generator"

text \<open>
  The vocabulary registry of \<open>utils\<close> (not part of the sources at hand, so a parameter):
  the tag dictionaries as association lists, and the padding tag.
\<close>

record registry =
  UPOS2IDX :: "(string \<times> nat) list"
  UFEATS2IDX :: "(string \<times> (string \<times> nat) list) list"
  PAD :: string

text \<open>The random initial values of the parameters the constructor creates.\<close>

record initializer =
  classifier_weight :: "nat \<Rightarrow> nat \<Rightarrow> real"
  classifier_bias :: "nat \<Rightarrow> real"
  pooler_weight :: "nat \<Rightarrow> nat \<Rightarrow> real"
  pooler_bias :: "nat \<Rightarrow> real"
  lstm_init :: "nat \<Rightarrow> real tensor \<Rightarrow> error + real tensor"
  table_init :: "string \<Rightarrow> nat \<Rightarrow> nat \<Rightarrow> real"

subsection \<open>The module\<close>

text \<open>
  The attributes of \<open>MorphologicalBertForSequenceClassification\<close>.  Dictionaries are
  association lists in insertion order (their keys are distinct); \<open>pooler\<close> is \<open>None\<close>
  when the attribute was never set; \<open>training\<close> is the mode flag of \<open>nn.Module\<close>.
\<close>

record model =
  num_labels :: nat
  dropout :: real
  additional_features :: "(string \<times> nat) list"
  pooling_type :: "string option"
  pooler :: "pooler option"
  bert_model :: encoder
  classifier :: linear
  embedders :: "(string \<times> embedding) list"
  training :: bool

text \<open>\<open>d[k]\<close> on a dictionary.\<close>

definition getitem :: "(string \<times> 'v) list \<Rightarrow> string \<Rightarrow> error + 'v" where
  "getitem d k = (case map_of d k of None \<Rightarrow> Inl (KeyError k) | Some v \<Rightarrow> Inr v)"

text \<open>Lines 95--105: the pooler, chosen by \<open>pooling_type\<close> when there are features.\<close>

definition make_pooler ::
  "initializer \<Rightarrow> (string \<times> nat) list option \<Rightarrow> string option \<Rightarrow> error + pooler option" where
  "make_pooler ini additional_features_arg pooling =
     (let feats = (case additional_features_arg of None \<Rightarrow> [] | Some fs \<Rightarrow> fs) in
      if length feats > 0 then
        if pooling = Some ''lstm'' then
          (case getitem feats ''upostag'' of
             Inl e \<Rightarrow> Inl e
           | Inr hid_size \<Rightarrow> Inr (Some (LSTMPooler hid_size (lstm_init ini hid_size))))
        else if pooling = Some ''weighted'' then
          (case getitem feats ''upostag'' of
             Inl e \<Rightarrow> Inl e
           | Inr embedding_size \<Rightarrow>
               Inr (Some (WeightedSumPooler
                            \<lparr>in_features = embedding_size, out_features = 1,
                             weight = pooler_weight ini, bias = pooler_bias ini\<rparr> 1)))
        else Inr (Some (MaskedMeanPooler 1))
      else Inr None)"

text \<open>Lines 114--122: one embedding table per feature.\<close>

definition make_embedder :: "registry \<Rightarrow> initializer \<Rightarrow> string \<Rightarrow> nat \<Rightarrow> error + embedding" where
  "make_embedder reg ini feature_name emb_size =
     (case (if feature_name = ''upostag'' then Inr (UPOS2IDX reg)
            else getitem (UFEATS2IDX reg) feature_name) of
        Inl e \<Rightarrow> Inl e
      | Inr vocabulary \<Rightarrow>
          (case getitem vocabulary (PAD reg) of
             Inl e \<Rightarrow> Inl e
           | Inr pad \<Rightarrow> nn_Embedding (length vocabulary) emb_size pad (table_init ini feature_name)))"

fun make_embedders ::
  "registry \<Rightarrow> initializer \<Rightarrow> (string \<times> nat) list \<Rightarrow> error + (string \<times> embedding) list" where
  "make_embedders reg ini [] = Inr []"
| "make_embedders reg ini ((feature_name, emb_size) # rest) =
     (case make_embedder reg ini feature_name emb_size of
        Inl e \<Rightarrow> Inl e
      | Inr emb \<Rightarrow>
          (case make_embedders reg ini rest of
             Inl e \<Rightarrow> Inl e
           | Inr embs \<Rightarrow> Inr ((feature_name, emb) # embs)))"

text \<open>
  The constructor (lines 86--122).  \<open>from_pretrained\<close> is \<open>BertModel.from_pretrained\<close>.
  A new module is in training mode.
\<close>

definition init_model ::
  "registry \<Rightarrow> initializer \<Rightarrow> (string option \<Rightarrow> error + encoder) \<Rightarrow>
   nat \<Rightarrow> string option \<Rightarrow> real \<Rightarrow> (string \<times> nat) list option \<Rightarrow> string option \<Rightarrow> error + model" where
  "init_model reg ini from_pretrained n_labels pretrained_model_name_or_path p
     additional_features_arg pooling =
     (let feats = (case additional_features_arg of None \<Rightarrow> [] | Some fs \<Rightarrow> fs) in
      case make_pooler ini additional_features_arg pooling of
        Inl e \<Rightarrow> Inl e
      | Inr pl \<Rightarrow>
          (case from_pretrained pretrained_model_name_or_path of
             Inl e \<Rightarrow> Inl e
           | Inr bert \<Rightarrow>
               (case make_embedders reg ini feats of
                  Inl e \<Rightarrow> Inl e
                | Inr embs \<Rightarrow>
                    Inr \<lparr>num_labels = n_labels, dropout = p, additional_features = feats,
                         pooling_type = pooling, pooler = pl, bert_model = bert,
                         classifier =
                           \<lparr>in_features = hidden_size bert + sum_list (map snd feats),
                            out_features = n_labels,
                            weight = classifier_weight ini, bias = classifier_bias ini\<rparr>,
                         embedders = embs, training = True\<rparr>)))"

text \<open>
  Lines 138--141: one feature of the batch, embedded and pooled.  \<open>self.pooler\<close> is
  evaluated first, then the arguments of the call.
\<close>

definition process_feature :: "model \<Rightarrow> (string \<rightharpoonup> int tensor) \<Rightarrow> string \<Rightarrow> error + real tensor" where
  "process_feature m kwargs feature_name =
     (case kwargs (feature_name @ ''_ids'') of
        None \<Rightarrow> Inl (KeyError (feature_name @ ''_ids''))
      | Some curr_input \<Rightarrow>
          (case kwargs (feature_name @ ''_mask'') of
             None \<Rightarrow> Inl (KeyError (feature_name @ ''_mask''))
           | Some curr_masks \<Rightarrow>
               (case pooler m of
                  None \<Rightarrow> Inl AttributeError
                | Some pl \<Rightarrow>
                    (case getitem (embedders m) feature_name of
                       Inl e \<Rightarrow> Inl e
                     | Inr emb \<Rightarrow>
                         (case embedding_forward emb curr_input of
                            Inl e \<Rightarrow> Inl e
                          | Inr data \<Rightarrow> pooler_forward pl data (to_real curr_masks))))))"

text \<open>Lines 136--141: the loop over the configured features, in their order.\<close>

fun process_features ::
  "model \<Rightarrow> (string \<rightharpoonup> int tensor) \<Rightarrow> string list \<Rightarrow> error + real tensor list" where
  "process_features m kwargs [] = Inr []"
| "process_features m kwargs (feature_name # rest) =
     (case process_feature m kwargs feature_name of
        Inl e \<Rightarrow> Inl e
      | Inr curr_processed \<Rightarrow>
          (case process_features m kwargs rest of
             Inl e \<Rightarrow> Inl e
           | Inr processed \<Rightarrow> Inr (curr_processed # processed)))"

text \<open>Lines 143--145: the pooled output, extended by the pooled features if there are any.\<close>

definition fuse :: "real tensor \<Rightarrow> real tensor list \<Rightarrow> error + real tensor" where
  "fuse pooled_output additional_processed =
     (if length additional_processed > 0 then
        (case cat 1 additional_processed of
           Inl e \<Rightarrow> Inl e
         | Inr joined \<Rightarrow> cat 1 [pooled_output, joined])
      else Inr pooled_output)"

text \<open>
  \<open>forward\<close> (lines 131--148), called as \<open>self.model(**curr_batch)\<close>: the three named
  arguments have to be in the batch.  The dropout of line 147 is \<open>F.dropout\<close> without a
  \<open>training\<close> argument: it does not read the mode of the module.  The result is the
  logits and the generator after the call.
\<close>

definition forward ::
  "model \<Rightarrow> (string \<rightharpoonup> int tensor) \<Rightarrow> generator \<Rightarrow> error + real tensor \<times> generator" where
  "forward m batch gen =
     (case (batch ''input_ids'', batch ''token_type_ids'', batch ''attention_mask'') of
        (Some input_ids, Some token_type_ids, Some attention_mask) \<Rightarrow>
          (case run (bert_model m) (training m) gen input_ids token_type_ids attention_mask of
             Inl e \<Rightarrow> Inl e
           | Inr (pooled_output, gen1) \<Rightarrow>
               (case process_features m batch (map fst (additional_features m)) of
                  Inl e \<Rightarrow> Inl e
                | Inr additional_processed \<Rightarrow>
                    (case fuse pooled_output additional_processed of
                       Inl e \<Rightarrow> Inl e
                     | Inr fused \<Rightarrow>
                         (case F_dropout (dropout m) (gen1 0) fused of
                            Inl e \<Rightarrow> Inl e
                          | Inr dropped \<Rightarrow>
                              (case linear_forward (classifier m) dropped of
                                 Inl e \<Rightarrow> Inl e
                               | Inr logits \<Rightarrow> Inr (logits, (\<lambda>n. gen1 (Suc n))))))))
      | _ \<Rightarrow> Inl TypeError)"


subsection \<open>An example classifier\<close>

text \<open>
  A small instance for running the model: an encoder with two hidden units whose pooled
  output is \<open>[1, 1]\<close> for every example, a registry with three part-of-speech tags and
  one other feature, parameters that make the classifier the identity, a batch of one
  example with the part-of-speech feature, and a generator whose \<open>n\<close>-th dropout mask
  keeps the entries of column \<open>n mod 2\<close>.
\<close>

definition example_encoder :: encoder where
  "example_encoder =
     \<lparr>hidden_size = 2,
      run = (\<lambda>mode gen input_ids token_type_ids attention_mask.
               Inr (\<lparr>shape = [hd (shape input_ids), 2], entry = (\<lambda>idx. 1)\<rparr>, gen))\<rparr>"

definition example_from_pretrained :: "string option \<Rightarrow> error + encoder" where
  "example_from_pretrained name = Inr example_encoder"

definition example_registry :: registry where
  "example_registry =
     \<lparr>UPOS2IDX = [(''PAD'', 0), (''NOUN'', 1), (''VERB'', 2)],
      UFEATS2IDX = [(''Case'', [(''PAD'', 0), (''Nom'', 1)])],
      PAD = ''PAD''\<rparr>"

definition example_initializer :: initializer where
  "example_initializer =
     \<lparr>classifier_weight = (\<lambda>out i. if out = i then 1 else 0),
      classifier_bias = (\<lambda>out. 0),
      pooler_weight = (\<lambda>out i. 0),
      pooler_bias = (\<lambda>out. 0),
      lstm_init = (\<lambda>hid data. Inl CollaboratorError),
      table_init = (\<lambda>name v j. 1)\<rparr>"


definition example_plain_batch :: "string \<rightharpoonup> int tensor" where
  "example_plain_batch =
     map_of [(''input_ids'', tensor2 [[5, 6]]), (''token_type_ids'', tensor2 [[0, 0]]),
             (''attention_mask'', tensor2 [[1, 1]])]"

definition example_generator :: generator where
  "example_generator n idx \<longleftrightarrow> idx ! 1 = n mod 2"

definition example_model :: "(string \<times> nat) list option \<Rightarrow> string option \<Rightarrow> error + model" where
  "example_model feats pooling =
     init_model example_registry example_initializer example_from_pretrained 2 (Some ''bert'')
       (1 / 2) feats pooling"


section \<open>The validation pass\<close>

text \<open>
  An item of a dataset is a dictionary of tensors (the label is the scalar under
  \<open>"labels"\<close>).  \<open>DataLoader(dataset, batch_size, shuffle=False)\<close> cuts the dataset into
  consecutive batches and stacks the items of a batch key by key.
\<close>

type_synonym item = "(string \<times> int tensor) list"

definition chunks :: "nat \<Rightarrow> 'a list \<Rightarrow> 'a list list" where
  "chunks n xs = map (\<lambda>i. take n (drop (i * n) xs)) [0..<(length xs + n - 1) div n]"

definition stack :: "'a tensor list \<Rightarrow> error + 'a tensor" where
  "stack ts =
     (case ts of
        [] \<Rightarrow> Inl RuntimeError
      | t # _ \<Rightarrow>
          if \<exists>u \<in> set ts. shape u \<noteq> shape t then Inl RuntimeError
          else Inr \<lparr>shape = length ts # shape t, entry = (\<lambda>idx. entry (ts ! hd idx) (tl idx))\<rparr>)"

text \<open>The results of a list of computations, or the first error.\<close>

fun gather :: "(error + 'a) list \<Rightarrow> error + 'a list" where
  "gather [] = Inr []"
| "gather (Inl e # rs) = Inl e"
| "gather (Inr x # rs) = (case gather rs of Inl e \<Rightarrow> Inl e | Inr xs \<Rightarrow> Inr (x # xs))"

definition collate :: "item list \<Rightarrow> error + (string \<times> int tensor) list" where
  "collate items =
     (case items of
        [] \<Rightarrow> Inl IndexError
      | first # _ \<Rightarrow>
          gather (map (\<lambda>key. case gather (map (\<lambda>d. getitem d key) items) of
                                Inl e \<Rightarrow> Inl e
                              | Inr ts \<Rightarrow> (case stack ts of Inl e \<Rightarrow> Inl e
                                                        | Inr t \<Rightarrow> Inr (key, t)))
                      (map fst first)))"

text \<open>
  \<open>nn.CrossEntropyLoss()\<close> on logits \<open>[B, C]\<close> and class indices \<open>[B]\<close>: the mean of the
  negative log-softmax at the label.
\<close>

definition cross_entropy :: "real tensor \<Rightarrow> int tensor \<Rightarrow> error + real" where
  "cross_entropy logits labels =
     (if length (shape logits) \<noteq> 2 \<or> shape labels \<noteq> [shape logits ! 0] then Inl ValueError
      else if \<exists>b \<in> set [0..<shape logits ! 0].
                entry labels [b] < 0 \<or> int (shape logits ! 1) \<le> entry labels [b] then Inl IndexError
      else Inr ((\<Sum>b<shape logits ! 0.
                   - ln (exp (entry logits [b, nat (entry labels [b])]) /
                         (\<Sum>c<shape logits ! 1. exp (entry logits [b, c]))))
                / real (shape logits ! 0)))"

text \<open>The position of the first maximum of a non-empty list.\<close>

definition first_max :: "real list \<Rightarrow> nat" where
  "first_max xs = length (takeWhile (\<lambda>x. x \<noteq> Max (set xs)) xs)"

text \<open>\<open>torch.argmax(logits, dim=1)\<close> on logits \<open>[B, C]\<close>.\<close>

definition argmax1 :: "real tensor \<Rightarrow> error + int tensor" where
  "argmax1 logits =
     (if length (shape logits) \<noteq> 2 then Inl IndexError
      else if shape logits ! 1 = 0 then Inl RuntimeError
      else Inr \<lparr>shape = [shape logits ! 0],
                entry = (\<lambda>idx. int (first_max (map (\<lambda>c. entry logits [hd idx, c])
                                                    [0..<shape logits ! 1])))\<rparr>)"

text \<open>\<open>int(torch.sum(label_preds == batch_labels))\<close> for two tensors of shape \<open>[B]\<close>.\<close>

definition count_equal :: "int tensor \<Rightarrow> int tensor \<Rightarrow> int" where
  "count_equal label_preds batch_labels =
     int (length (filter (\<lambda>b. entry label_preds [b] = entry batch_labels [b])
                         [0..<hd (shape label_preds)]))"

text \<open>The loop of \<open>validate\<close> (lines 210--219) over the remaining batches.\<close>

fun validate_batches ::
  "model \<Rightarrow> item list list \<Rightarrow> generator \<Rightarrow> real \<Rightarrow> int \<Rightarrow> error + real \<times> int \<times> generator" where
  "validate_batches m [] gen dev_loss num_correct = Inr (dev_loss, num_correct, gen)"
| "validate_batches m (items # rest) gen dev_loss num_correct =
     (case collate items of
        Inl e \<Rightarrow> Inl e
      | Inr curr_batch \<Rightarrow>
          (case getitem curr_batch ''labels'' of
             Inl e \<Rightarrow> Inl e
           | Inr batch_labels \<Rightarrow>
               (case forward m (map_of (filter (\<lambda>kv. fst kv \<noteq> ''labels'') curr_batch)) gen of
                  Inl e \<Rightarrow> Inl e
                | Inr (logits, gen1) \<Rightarrow>
                    (case cross_entropy logits batch_labels of
                       Inl e \<Rightarrow> Inl e
                     | Inr curr_loss \<Rightarrow>
                         (case argmax1 logits of
                            Inl e \<Rightarrow> Inl e
                          | Inr label_preds \<Rightarrow>
                              validate_batches m rest gen1 (dev_loss + curr_loss)
                                (num_correct + count_equal label_preds batch_labels))))))"

text \<open>
  \<open>validate\<close> (lines 203--224).  \<open>self.model.eval()\<close> clears the mode flag and nothing sets
  it again; the result is the metrics, the module and the generator after the pass.
  \<open>DataLoader\<close> refuses a negative batch size; both divisions raise on zero.
\<close>

definition validate ::
  "controller \<Rightarrow> model \<Rightarrow> item list \<Rightarrow> generator \<Rightarrow> error + metrics \<times> model \<times> generator" where
  "validate c m dev_dataset gen =
     (let m1 = m\<lparr>training := False\<rparr> in
      if batch_size c = 0 then Inl ZeroDivisionError
      else
        let total_num_batches = (int (length dev_dataset) + batch_size c - 1) div batch_size c in
        if batch_size c < 0 then Inl ValueError
        else
          (case validate_batches m1 (chunks (nat (batch_size c)) dev_dataset) gen 0 0 of
             Inl e \<Rightarrow> Inl e
           | Inr (dev_loss, num_correct, gen1) \<Rightarrow>
               if total_num_batches = 0 \<or> length dev_dataset = 0 then Inl ZeroDivisionError
               else Inr (\<lparr>loss = dev_loss / real_of_int total_num_batches,
                          accuracy = real_of_int num_correct / real (length dev_dataset)\<rparr>,
                         m1, gen1)))"

text \<open>A development set of one example with label 0, for the example classifier.\<close>

definition example_dev_dataset :: "item list" where
  "example_dev_dataset =
     [[(''input_ids'', \<lparr>shape = [2], entry = (\<lambda>idx. 5)\<rparr>),
       (''token_type_ids'', \<lparr>shape = [2], entry = (\<lambda>idx. 0)\<rparr>),
       (''attention_mask'', \<lparr>shape = [2], entry = (\<lambda>idx. 1)\<rparr>),
       (''labels'', \<lparr>shape = [], entry = (\<lambda>idx. 0)\<rparr>)]]"

section \<open>Training steps on an embedding table\<close>

text \<open>
  Modelled from the spec: the gradient of an embedding table, computed by the embedding
  framework and not part of the sources.  The specification (sections 3 and 4.2) has the
  padding ID ``excluded from gradient-bearing computation at that index'', ``equivalent
  to the embedding framework's standard padding-index contract'': the gradient row of an
  id collects the upstream gradients of the positions that looked the id up, and the row
  of the padding index is zero.  \<open>upstream\<close> is the gradient of the loss with respect to
  the embedded output, of shape \<open>shape ids @ [embedding_dim]\<close>.
\<close>

definition embedding_backward :: "embedding \<Rightarrow> int tensor \<Rightarrow> real tensor \<Rightarrow> nat \<Rightarrow> nat \<Rightarrow> real" where
  "embedding_backward emb ids upstream v j =
     (if v = padding_idx emb then 0
      else sum_list (map (\<lambda>idx. if entry ids idx = int v then entry upstream (idx @ [j]) else 0)
                         (indices (shape ids))))"

text \<open>
  Modelled from the spec: the optimizer bound at construction (line 173), an ``adaptive
  gradient method with decoupled weight decay'' (section 4.4), whose code is the
  framework's: the weights are decayed by \<open>1 - lr * weight_decay\<close>, the running averages
  of the gradient and of its square are updated, and the weights move against the
  bias-corrected average divided by the root of the bias-corrected squared average plus
  \<open>eps\<close>.  The state starts at zero.
\<close>

record hyper =
  lr :: real
  beta1 :: real
  beta2 :: real
  eps :: real
  weight_decay :: real

record optimizer_state =
  exp_avg :: "nat \<Rightarrow> nat \<Rightarrow> real"
  exp_avg_sq :: "nat \<Rightarrow> nat \<Rightarrow> real"
  steps :: nat

definition initial_state :: optimizer_state where
  "initial_state = \<lparr>exp_avg = (\<lambda>v j. 0), exp_avg_sq = (\<lambda>v j. 0), steps = 0\<rparr>"

definition adamw_step ::
  "hyper \<Rightarrow> (nat \<Rightarrow> nat \<Rightarrow> real) \<Rightarrow> embedding \<times> optimizer_state \<Rightarrow> embedding \<times> optimizer_state" where
  "adamw_step h grad es =
     (let emb = fst es; st = snd es; t = Suc (steps st);
          avg = (\<lambda>v j. beta1 h * exp_avg st v j + (1 - beta1 h) * grad v j);
          avg_sq = (\<lambda>v j. beta2 h * exp_avg_sq st v j + (1 - beta2 h) * (grad v j)\<^sup>2)
      in (emb\<lparr>table := (\<lambda>v j. table emb v j * (1 - lr h * weight_decay h)
                                 - lr h * (avg v j / (1 - beta1 h ^ t))
                                   / (sqrt (avg_sq v j / (1 - beta2 h ^ t)) + eps h))\<rparr>,
          \<lparr>exp_avg = avg, exp_avg_sq = avg_sq, steps = t\<rparr>))"

text \<open>
  What the batches of \<open>train\<close> (lines 190--199: forward, loss, \<open>backward\<close>, \<open>step\<close>,
  \<open>zero_grad\<close>) do to the table of one feature.  A batch is given by the feature's ids
  and the upstream gradient that \<open>backward\<close> brings to the embedded output; several calls
  of \<open>train\<close> are the concatenation of their batches.
\<close>

definition train_table ::
  "hyper \<Rightarrow> (int tensor \<times> real tensor) list \<Rightarrow> embedding \<times> optimizer_state \<Rightarrow>
   embedding \<times> optimizer_state" where
  "train_table h batches es =
     foldl (\<lambda>es b. adamw_step h (embedding_backward (fst es) (fst b) (snd b)) es) es batches"

text \<open>
  The padding row of the table and of both running averages is zero: the invariant of
  the training steps.
\<close>

definition frozen_row :: "nat \<Rightarrow> embedding \<times> optimizer_state \<Rightarrow> bool" where
  "frozen_row pad es \<longleftrightarrow>
     padding_idx (fst es) = pad \<and>
     (\<forall>j. table (fst es) pad j = 0 \<and> exp_avg (snd es) pad j = 0 \<and> exp_avg_sq (snd es) pad j = 0)"

text \<open>
  Line 173, \<open>optim.AdamW(self.model.parameters(), lr=lr)\<close>: the learning rate of the
  controller and the defaults of the optimizer for everything else.
\<close>

definition optim_AdamW :: "real \<Rightarrow> hyper" where
  "optim_AdamW learning_rate =
     \<lparr>lr = learning_rate, beta1 = 9 / 10, beta2 = 999 / 1000,
      eps = 1 / 100000000, weight_decay = 1 / 100\<rparr>"

section \<open>Properties of the \<open>fit\<close> loop\<close>

subsection \<open>The early-stopping invariant\<close>

lemma validations_append: "validations (xs @ ys) = validations xs @ validations ys"
  by (induction xs rule: validations.induct) simp_all

lemma es_replay_snoc: "es_replay (vs @ [a]) = es_step (es_replay vs) a"
  by (simp add: es_replay_def)

lemma record_validation_fields:
  "world (record_validation a st) = world st"
  "trace (record_validation a st) = trace st"
  "stop_early (record_validation a st) = stop_early st"
  "(best_dev_acc (record_validation a st), rounds_no_increase (record_validation a st)) =
     es_step (best_dev_acc st, rounds_no_increase st) a"
  by (simp_all add: record_validation_def es_step_def)

lemma fit_inv_train:
  "fit_inv c st \<Longrightarrow> fit_inv c (st\<lparr>world := w, trace := trace st @ [Trained s]\<rparr>)"
  by (simp add: fit_inv_def validations_append)

lemma fit_inv_skip:
  "fit_inv c st \<Longrightarrow> fit_inv c (st\<lparr>trace := trace st @ [Skipped n]\<rparr>)"
  by (simp add: fit_inv_def validations_append)

lemma fit_inv_validate:
  assumes "fit_inv c st" "running c st"
  shows "fit_inv c (record_validation a (st\<lparr>world := w, trace := trace st @ [Validated a]\<rparr>))"
proof -
  let ?vs = "validations (trace st)"
  let ?st' = "record_validation a (st\<lparr>world := w, trace := trace st @ [Validated a]\<rparr>)"
  have v: "validations (trace ?st') = ?vs @ [a]"
    by (simp add: record_validation_fields validations_append)
  have "(best_dev_acc ?st', rounds_no_increase ?st') = es_step (best_dev_acc st, rounds_no_increase st) a"
    using record_validation_fields(4)[of a "st\<lparr>world := w, trace := trace st @ [Validated a]\<rparr>"] by simp
  also have "\<dots> = es_replay (?vs @ [a])"
    using assms(1) by (simp add: fit_inv_def es_replay_snoc)
  finally have a1: "(best_dev_acc ?st', rounds_no_increase ?st') = es_replay (validations (trace ?st'))"
    using v by simp
  have a2: "snd (es_replay (take k (?vs @ [a]))) \<noteq> early_stopping_rounds c"
    if "0 < k" "k < length (?vs @ [a])" for k
  proof (cases "k < length ?vs")
    case True
    then show ?thesis using assms(1) that by (simp add: fit_inv_def)
  next
    case False
    then have k: "k = length ?vs" using that by simp
    then have ne: "?vs \<noteq> []" using that by auto
    have "snd (es_replay ?vs) = rounds_no_increase st"
      using assms(1) by (metis fit_inv_def snd_conv)
    then show ?thesis using assms(2) ne k by (simp add: running_def)
  qed
  show ?thesis unfolding fit_inv_def using a1 a2 v by simp
qed

lemma miniset_loop_inv:
  "fit_inv c st \<Longrightarrow> running c st \<Longrightarrow>
   miniset_loop train_fn validate_fn c dev perm idxs st = Inr st' \<Longrightarrow>
   fit_inv c st' \<and> (running c st' \<or> stopped c st')"
proof (induction idxs arbitrary: st)
  case Nil
  then show ?case by simp
next
  case (Cons i idxs)
  let ?s = "miniset c perm i"
  from Cons.prems(3) obtain tl w1 where tr: "train_fn ?s (world st) = Inr (tl, w1)"
    by (auto simp: Let_def split: sum.splits)
  let ?st1 = "st\<lparr>world := w1, trace := trace st @ [Trained ?s]\<rparr>"
  have i1: "fit_inv c ?st1" using Cons.prems(1) by (rule fit_inv_train)
  have r1: "running c ?st1" using Cons.prems(2) by (simp add: running_def validations_append)
  show ?case
  proof (cases "skips_validation c dev ?s")
    case True
    let ?st2 = "?st1\<lparr>trace := trace ?st1 @ [Skipped (length ?s)]\<rparr>"
    have "miniset_loop train_fn validate_fn c dev perm idxs ?st2 = Inr st'"
      using Cons.prems(3) tr True by (simp add: Let_def)
    moreover have "fit_inv c ?st2" using i1 by (rule fit_inv_skip)
    moreover have "running c ?st2" using r1 by (simp add: running_def validations_append)
    ultimately show ?thesis using Cons.IH by blast
  next
    case False
    from Cons.prems(3) tr False obtain m w2 where va: "validate_fn (the dev) w1 = Inr (m, w2)"
      by (auto simp: Let_def split: sum.splits)
    let ?st2 = "record_validation (accuracy m) (?st1\<lparr>world := w2, trace := trace ?st1 @ [Validated (accuracy m)]\<rparr>)"
    have i2: "fit_inv c ?st2" using i1 r1 by (rule fit_inv_validate)
    have l2: "trace ?st2 = trace ?st1 @ [Validated (accuracy m)]" "\<not> stop_early ?st2"
      using r1 by (simp_all add: record_validation_fields running_def)
    show ?thesis
    proof (cases "rounds_no_increase ?st2 = early_stopping_rounds c")
      case True
      then have "st' = ?st2\<lparr>stop_early := True\<rparr>"
        using Cons.prems(3) tr False va by (simp add: Let_def)
      moreover have "fit_inv c (?st2\<lparr>stop_early := True\<rparr>)" using i2 by (simp add: fit_inv_def)
      moreover have "stopped c (?st2\<lparr>stop_early := True\<rparr>)"
        using True l2 unfolding stopped_def by simp
      ultimately show ?thesis by simp
    next
      case F2: False
      then have "miniset_loop train_fn validate_fn c dev perm idxs ?st2 = Inr st'"
        using Cons.prems(3) tr False va by (simp add: Let_def)
      moreover have "running c ?st2" using F2 l2 by (simp add: running_def)
      ultimately show ?thesis using Cons.IH i2 by blast
    qed
  qed
qed

lemma stopped_stop: "stopped c st \<Longrightarrow> stop_early st"
  by (simp add: stopped_def)

lemma epoch_loop_inv:
  "fit_inv c st \<Longrightarrow> running c st \<Longrightarrow>
   epoch_loop train_fn validate_fn randperm c n dev es st = Inr st' \<Longrightarrow>
   fit_inv c st' \<and> (running c st' \<or> stopped c st')"
proof (induction es arbitrary: st)
  case Nil
  then show ?case by simp
next
  case (Cons e es)
  obtain perm w1 where rp: "randperm n (world st) = (perm, w1)" by (cases "randperm n (world st)")
  from Cons.prems(3) rp obtain k where k: "num_minisets c n = Inr k"
    by (auto split: sum.splits)
  from Cons.prems(3) rp k obtain st1 where
    ml: "miniset_loop train_fn validate_fn c dev perm (py_range k) (st\<lparr>world := w1\<rparr>) = Inr st1"
    by (auto split: sum.splits)
  have "fit_inv c (st\<lparr>world := w1\<rparr>)" "running c (st\<lparr>world := w1\<rparr>)"
    using Cons.prems(1,2) by (simp_all add: fit_inv_def running_def)
  then have s1: "fit_inv c st1 \<and> (running c st1 \<or> stopped c st1)"
    using ml by (rule miniset_loop_inv)
  show ?case
  proof (cases "stop_early st1")
    case True
    then have "st' = st1" using Cons.prems(3) rp k ml by simp
    then show ?thesis using s1 by simp
  next
    case False
    then have "epoch_loop train_fn validate_fn randperm c n dev es st1 = Inr st'"
      using Cons.prems(3) rp k ml by simp
    moreover have "running c st1" using s1 False stopped_stop by blast
    ultimately show ?thesis using Cons.IH s1 by blast
  qed
qed

lemma fit_run_inv:
  assumes "fit train_fn validate_fn randperm c n E dev w = Inr r"
  shows "fit_inv c r \<and> (running c r \<or> stopped c r)"
proof -
  let ?st0 = "\<lparr>best_dev_acc = 0, rounds_no_increase = 0, stop_early = False, world = w, trace = []\<rparr>"
  have "fit_inv c ?st0" by (simp add: fit_inv_def es_replay_def)
  moreover have "running c ?st0" by (simp add: running_def)
  ultimately show ?thesis using assms unfolding fit_def by (rule epoch_loop_inv)
qed

subsection \<open>Minisets\<close>























lemma miniset_example:
  "map (miniset \<lparr>batch_size = 16, validate_every_n_steps = 2, early_stopping_rounds = 5\<rparr>
                 [4, 2, 0, 3, 1]) (py_range 3) = [[4, 2], [0, 3], [1]]"
  by (simp add: miniset_def py_slice_def py_range_def upt_conv_Cons)

subsection \<open>Runs that return\<close>

text \<open>
  \<open>fit\<close> returns whenever its collaborators do and the interval is not 0; with an
  interval of 0 the first epoch raises at the division of line 235.
\<close>

lemma miniset_loop_returns:
  assumes tr: "\<forall>s w. \<exists>x. train_fn s w = Inr x" and va: "\<forall>d w. \<exists>x. validate_fn d w = Inr x"
  shows "\<exists>st'. miniset_loop train_fn validate_fn c dev perm idxs st = Inr st'"
proof (induction idxs arbitrary: st)
  case Nil
  then show ?case by simp
next
  case (Cons i idxs)
  obtain tl w1 where t: "train_fn (miniset c perm i) (world st) = Inr (tl, w1)"
    using tr by (metis surj_pair)
  obtain m w2 where v: "validate_fn (the dev) w1 = Inr (m, w2)"
    using va by (metis surj_pair)
  show ?case using Cons.IH by (simp add: t v Let_def)
qed

lemma epoch_loop_returns:
  assumes tr: "\<forall>s w. \<exists>x. train_fn s w = Inr x" and va: "\<forall>d w. \<exists>x. validate_fn d w = Inr x"
    and n: "validate_every_n_steps c \<noteq> 0"
  shows "\<exists>st'. epoch_loop train_fn validate_fn randperm c L dev es st = Inr st'"
proof (induction es arbitrary: st)
  case Nil
  then show ?case by simp
next
  case (Cons e es)
  obtain perm w1 where rp: "randperm L (world st) = (perm, w1)" by (cases "randperm L (world st)")
  obtain k where k: "num_minisets c L = Inr k" using n by (simp add: num_minisets_def)
  obtain st1 where ml: "miniset_loop train_fn validate_fn c dev perm (py_range k) (st\<lparr>world := w1\<rparr>) = Inr st1"
    using miniset_loop_returns[OF tr va] by blast
  show ?case using Cons.IH[of st1] by (simp add: rp k ml)
qed

lemma fit_returns:
  assumes "\<forall>s w. \<exists>x. train_fn s w = Inr x" and "\<forall>d w. \<exists>x. validate_fn d w = Inr x"
    and "validate_every_n_steps c \<noteq> 0"
  shows "\<exists>r. fit train_fn validate_fn randperm c L num_epochs dev w = Inr r"
  unfolding fit_def using assms by (rule epoch_loop_returns)

lemma fit_zero_interval:
  assumes "validate_every_n_steps c = 0" "0 < num_epochs"
  shows "fit train_fn validate_fn randperm c L num_epochs dev w = Inl ZeroDivisionError"
proof -
  have "0 < nat num_epochs" using assms(2) by simp
  then have "[0..<nat num_epochs] = 0 # [Suc 0..<nat num_epochs]" by (simp add: upt_conv_Cons)
  then have "py_range num_epochs = 0 # map int [Suc 0..<nat num_epochs]" by (simp add: py_range_def)
  then show ?thesis using assms(1)
    by (simp add: fit_def num_minisets_def split: prod.splits)
qed

subsection \<open>Early stopping and skipped validations\<close>

lemmas example_simps = example_train_def example_validate_def example_randperm_def
  example_controller_def fit_def py_range_def upt_conv_Cons miniset_def py_slice_def
  num_minisets_def skips_validation_def record_validation_def Let_def







lemma trace_ok_append:
  "trace_ok c dev xs \<Longrightarrow> trace_ok c dev (xs @ ys) = trace_ok c dev ys"
  by (induction c dev xs rule: trace_ok.induct) simp_all

lemma trained_append: "trained (xs @ ys) = trained xs @ trained ys"
  by (induction xs rule: trained.induct) simp_all

lemma miniset_loop_trace_ok:
  "trace_ok c dev (trace st) \<Longrightarrow>
   miniset_loop train_fn validate_fn c dev perm idxs st = Inr st' \<Longrightarrow>
   trace_ok c dev (trace st')"
proof (induction idxs arbitrary: st)
  case Nil
  then show ?case by simp
next
  case (Cons i idxs)
  let ?s = "miniset c perm i"
  from Cons.prems(2) obtain tl w1 where tr: "train_fn ?s (world st) = Inr (tl, w1)"
    by (auto simp: Let_def split: sum.splits)
  show ?case
  proof (cases "skips_validation c dev ?s")
    case True
    let ?st2 = "st\<lparr>world := w1, trace := (trace st @ [Trained ?s]) @ [Skipped (length ?s)]\<rparr>"
    have "miniset_loop train_fn validate_fn c dev perm idxs ?st2 = Inr st'"
      using Cons.prems(2) tr True by (simp add: Let_def)
    moreover have "trace_ok c dev (trace ?st2)"
      using Cons.prems(1) True by (simp add: trace_ok_append)
    ultimately show ?thesis by (rule Cons.IH[rotated])
  next
    case False
    from Cons.prems(2) tr False obtain m w2 where va: "validate_fn (the dev) w1 = Inr (m, w2)"
      by (auto simp: Let_def split: sum.splits)
    let ?st2 = "record_validation (accuracy m)
                  (st\<lparr>world := w2, trace := (trace st @ [Trained ?s]) @ [Validated (accuracy m)]\<rparr>)"
    have ok2: "trace_ok c dev (trace ?st2)"
      using Cons.prems(1) False by (simp add: record_validation_fields trace_ok_append)
    show ?thesis
    proof (cases "rounds_no_increase ?st2 = early_stopping_rounds c")
      case True
      then have "st' = ?st2\<lparr>stop_early := True\<rparr>"
        using Cons.prems(2) tr False va by (simp add: Let_def)
      then show ?thesis using ok2 by simp
    next
      case F2: False
      then have "miniset_loop train_fn validate_fn c dev perm idxs ?st2 = Inr st'"
        using Cons.prems(2) tr False va by (simp add: Let_def)
      with ok2 show ?thesis by (rule Cons.IH)
    qed
  qed
qed

lemma epoch_loop_trace_ok:
  "trace_ok c dev (trace st) \<Longrightarrow>
   epoch_loop train_fn validate_fn randperm c n dev es st = Inr st' \<Longrightarrow>
   trace_ok c dev (trace st')"
proof (induction es arbitrary: st)
  case Nil
  then show ?case by simp
next
  case (Cons e es)
  obtain perm w1 where rp: "randperm n (world st) = (perm, w1)" by (cases "randperm n (world st)")
  from Cons.prems(2) rp obtain k where k: "num_minisets c n = Inr k"
    by (auto split: sum.splits)
  from Cons.prems(2) rp k obtain st1 where
    ml: "miniset_loop train_fn validate_fn c dev perm (py_range k) (st\<lparr>world := w1\<rparr>) = Inr st1"
    by (auto split: sum.splits)
  have "trace_ok c dev (trace (st\<lparr>world := w1\<rparr>))" using Cons.prems(1) by simp
  then have s1: "trace_ok c dev (trace st1)" using ml by (rule miniset_loop_trace_ok)
  show ?case
  proof (cases "stop_early st1")
    case True
    then have "st' = st1" using Cons.prems(2) rp k ml by simp
    then show ?thesis using s1 by simp
  next
    case False
    then have "epoch_loop train_fn validate_fn randperm c n dev es st1 = Inr st'"
      using Cons.prems(2) rp k ml by simp
    with s1 show ?thesis by (rule Cons.IH)
  qed
qed

lemma miniset_loop_no_dev:
  "miniset_loop train_fn validate_fn c None perm idxs st = Inr st' \<Longrightarrow>
   validations (trace st') = validations (trace st) \<and> stop_early st' = stop_early st \<and>
   best_dev_acc st' = best_dev_acc st \<and> rounds_no_increase st' = rounds_no_increase st \<and>
   trained (trace st') = trained (trace st) @ map (miniset c perm) idxs"
proof (induction idxs arbitrary: st)
  case Nil
  then show ?case by simp
next
  case (Cons i idxs)
  let ?s = "miniset c perm i"
  from Cons.prems obtain tl w1 where tr: "train_fn ?s (world st) = Inr (tl, w1)"
    by (auto simp: Let_def split: sum.splits)
  let ?st2 = "st\<lparr>world := w1, trace := (trace st @ [Trained ?s]) @ [Skipped (length ?s)]\<rparr>"
  have "miniset_loop train_fn validate_fn c None perm idxs ?st2 = Inr st'"
    using Cons.prems tr by (simp add: Let_def skips_validation_def)
  from Cons.IH[OF this] show ?case by (simp add: validations_append trained_append)
qed

lemma epoch_loop_no_dev:
  "\<not> stop_early st \<Longrightarrow>
   epoch_loop train_fn validate_fn randperm c n None es st = Inr st' \<Longrightarrow>
   validations (trace st') = validations (trace st) \<and> \<not> stop_early st' \<and>
   best_dev_acc st' = best_dev_acc st \<and> rounds_no_increase st' = rounds_no_increase st \<and>
   (\<forall>k. num_minisets c n = Inr k \<longrightarrow>
      length (trained (trace st')) = length (trained (trace st)) + length es * nat k)"
proof (induction es arbitrary: st)
  case Nil
  then show ?case by simp
next
  case (Cons e es)
  obtain perm w1 where rp: "randperm n (world st) = (perm, w1)" by (cases "randperm n (world st)")
  from Cons.prems(2) rp obtain k where k: "num_minisets c n = Inr k"
    by (auto split: sum.splits)
  from Cons.prems(2) rp k obtain st1 where
    ml: "miniset_loop train_fn validate_fn c None perm (py_range k) (st\<lparr>world := w1\<rparr>) = Inr st1"
    by (auto split: sum.splits)
  note m = miniset_loop_no_dev[OF ml]
  have ns: "\<not> stop_early st1" using m Cons.prems(1) by simp
  then have "epoch_loop train_fn validate_fn randperm c n None es st1 = Inr st'"
    using Cons.prems(2) rp k ml by simp
  from Cons.IH[OF ns this] m k show ?case by (simp add: py_range_def)
qed

lemma skips_validation_floor:
  "skips_validation c dev s \<longleftrightarrow> dev = None \<or> 2 * int (length s) + 1 < validate_every_n_steps c"
  unfolding skips_validation_def by linarith

lemma example_run_no_dev:
  "fit example_train example_validate example_randperm (example_controller 5 5) 7 2 None 0 =
   Inr \<lparr>best_dev_acc = 0, rounds_no_increase = 0, stop_early = False, world = 0,
        trace = [Trained [6, 5, 4, 3, 2], Skipped 5, Trained [1, 0], Skipped 2,
                 Trained [6, 5, 4, 3, 2], Skipped 5, Trained [1, 0], Skipped 2]\<rparr>"
  by (simp add: example_simps)

text \<open>
  C9, as the code has it.  For every run of \<open>fit\<close> that returns: each trained miniset
  is followed in the log by a skipped validation exactly when \<open>dev_dataset\<close> is
  \<open>None\<close> or the miniset has fewer examples than \<open>validate_every_n_steps // 2\<close>, the
  half rounded down (that is, \<open>2 * len + 1 < validate_every_n_steps\<close>), and by a
  validation otherwise; the best accuracy and the counter depend on the validations
  only, so a skipped validation does not touch them; and without a development set no
  validation runs, the run never stops early and every miniset of every epoch is trained.
\<close>

theorem fit_skips_validation:
  assumes run: "fit train_fn validate_fn randperm c train_len num_epochs dev_dataset w = Inr r"
  shows "trace_ok c dev_dataset (trace r)
     \<and> (\<forall>s. skips_validation c dev_dataset s \<longleftrightarrow>
            dev_dataset = None \<or> 2 * int (length s) + 1 < validate_every_n_steps c)
     \<and> (best_dev_acc r, rounds_no_increase r) = es_replay (validations (trace r))
     \<and> (dev_dataset = None \<longrightarrow>
           validations (trace r) = [] \<and> \<not> stop_early r \<and>
           best_dev_acc r = 0 \<and> rounds_no_increase r = 0 \<and>
           (\<forall>k. num_minisets c train_len = Inr k \<longrightarrow>
              length (trained (trace r)) = nat num_epochs * nat k))"
proof -
  let ?st0 = "\<lparr>best_dev_acc = 0, rounds_no_increase = 0, stop_early = False, world = w, trace = []\<rparr>"
  have run': "epoch_loop train_fn validate_fn randperm c train_len dev_dataset (py_range num_epochs) ?st0 = Inr r"
    using run by (simp add: fit_def)
  have "trace_ok c dev_dataset (trace ?st0)" by simp
  then have c1: "trace_ok c dev_dataset (trace r)" using run' by (rule epoch_loop_trace_ok)
  have c2: "\<forall>s. skips_validation c dev_dataset s \<longleftrightarrow>
            dev_dataset = None \<or> 2 * int (length s) + 1 < validate_every_n_steps c"
    using skips_validation_floor by blast
  have c3: "(best_dev_acc r, rounds_no_increase r) = es_replay (validations (trace r))"
    using fit_run_inv[OF run] by (simp add: fit_inv_def)
  have c4: "validations (trace r) = [] \<and> \<not> stop_early r \<and>
           best_dev_acc r = 0 \<and> rounds_no_increase r = 0 \<and>
           (\<forall>k. num_minisets c train_len = Inr k \<longrightarrow>
              length (trained (trace r)) = nat num_epochs * nat k)" if "dev_dataset = None"
  proof -
    have "\<not> stop_early ?st0" by simp
    from epoch_loop_no_dev[OF this run'[unfolded that]] show ?thesis by (simp add: py_range_def)
  qed
  from c1 c2 c3 c4 show ?thesis by blast
qed

theorem fit_skips_validation_witness:
  "fit example_train example_validate example_randperm (example_controller 5 5) 7 2 None 0 =
   Inr \<lparr>best_dev_acc = 0, rounds_no_increase = 0, stop_early = False, world = 0,
        trace = [Trained [6, 5, 4, 3, 2], Skipped 5, Trained [1, 0], Skipped 2,
                 Trained [6, 5, 4, 3, 2], Skipped 5, Trained [1, 0], Skipped 2]\<rparr>
   \<and> num_minisets (example_controller 5 5) 7 = Inr 2
   \<and> trace_ok (example_controller 5 5) (None :: real list option)
        [Trained [6, 5, 4, 3, 2], Skipped 5, Trained [1, 0], Skipped 2,
         Trained [6, 5, 4, 3, 2], Skipped 5, Trained [1, 0], Skipped 2]"
  using fit_skips_validation[OF example_run_no_dev] example_run_no_dev
  by (simp add: num_minisets_def example_controller_def)

text \<open>
  C9 as stated fails for an odd interval: with \<open>validate_every_n_steps = 5\<close> and seven
  examples the second miniset has 2 examples, fewer than half the interval (2.5), and
  its validation runs all the same, since \<open>5 // 2 = 2\<close>.
\<close>

theorem fit_skips_validation_counterexample:
  "fit example_train example_validate example_randperm (example_controller 5 5) 7 1
       (Some [1/2, 3/5]) 0 =
   Inr \<lparr>best_dev_acc = 3/5, rounds_no_increase = 0, stop_early = False, world = 2,
        trace = [Trained [6, 5, 4, 3, 2], Validated (1/2), Trained [1, 0], Validated (3/5)]\<rparr>
   \<and> real (length [1, 0 :: nat]) < real_of_int (validate_every_n_steps (example_controller 5 5)) / 2"
  by (simp add: example_simps)


section \<open>Properties of the pooling strategies\<close>

lemma sum_list_upt: "sum_list (map f [0..<n]) = (\<Sum>i<n. f i)"
  by (simp add: interv_sum_list_conv_sum_set_nat atLeast_upt)

lemma sum_list_cong_upt:
  "(\<And>i. i < n \<Longrightarrow> f i = g i) \<Longrightarrow> sum_list (map f [0..<n]) = sum_list (map g [0..<n])"
  by (rule arg_cong[where f = sum_list]) simp

lemma broadcast_index3:
  "b < B \<Longrightarrow> t < T \<Longrightarrow> e < E \<Longrightarrow> broadcast_index [B, T, E] [b, t, e] = [b, t, e]"
  by (auto simp: broadcast_index_def)

lemma broadcast_index3_last1:
  "b < B \<Longrightarrow> t < T \<Longrightarrow> broadcast_index [B, T, Suc 0] [b, t, e] = [b, t, 0]"
  by (auto simp: broadcast_index_def)

lemma unsqueeze2_rank2:
  "shape masks = [B, T] \<Longrightarrow>
   unsqueeze 2 masks = Inr \<lparr>shape = [B, T, 1], entry = (\<lambda>idx. entry masks (take 2 idx @ drop 3 idx))\<rparr>"
  by (simp add: unsqueeze_def norm_dim_def numeral_3_eq_3)

lemma tmul_last1_right:
  assumes "shape a = [B, T, E]" "shape m = [B, T, 1]"
  shows "tmul a m = Inr \<lparr>shape = [B, T, E],
           entry = (\<lambda>idx. entry a (broadcast_index [B, T, E] idx) * entry m (broadcast_index [B, T, 1] idx))\<rparr>"
  using assms by (simp add: tmul_def)

lemma tmul_last1_left:
  assumes "shape m = [B, T, 1]" "shape a = [B, T, E]"
  shows "tmul m a = Inr \<lparr>shape = [B, T, E],
           entry = (\<lambda>idx. entry m (broadcast_index [B, T, 1] idx) * entry a (broadcast_index [B, T, E] idx))\<rparr>"
  using assms by (auto simp: tmul_def)

lemma tsum1_rank3:
  assumes "shape x = [B, T, E]"
  shows "tsum 1 x = Inr \<lparr>shape = [B, E],
           entry = (\<lambda>idx. sum_list (map (\<lambda>i. entry x (take 1 idx @ [i] @ drop 1 idx)) [0..<T]))\<rparr>"
  using assms by (simp add: tsum_def norm_dim_def)

lemma masked_mean_value:
  assumes d: "shape data = [B, T, E]" and m: "shape masks = [B, T]"
  shows "\<exists>out. masked_mean_forward 1 data masks = Inr out \<and> shape out = [B, E] \<and>
           (\<forall>b<B. \<forall>e<E. entry out [b, e] = (\<Sum>t<T. entry data [b, t, e] * entry masks [b, t]))"
proof -
  let ?m = "\<lparr>shape = [B, T, 1], entry = (\<lambda>idx. entry masks (take 2 idx @ drop 3 idx))\<rparr>"
  let ?md = "\<lparr>shape = [B, T, E],
           entry = (\<lambda>idx. entry data (broadcast_index [B, T, E] idx) * entry ?m (broadcast_index [B, T, 1] idx))\<rparr>"
  let ?out = "\<lparr>shape = [B, E],
           entry = (\<lambda>idx. sum_list (map (\<lambda>i. entry ?md (take 1 idx @ [i] @ drop 1 idx)) [0..<T]))\<rparr>"
  have u: "unsqueeze 2 masks = Inr ?m" using m by (rule unsqueeze2_rank2)
  have t: "tmul data ?m = Inr ?md" by (rule tmul_last1_right) (simp_all add: d)
  have s: "tsum 1 ?md = Inr ?out" by (rule tsum1_rank3) simp
  have f: "masked_mean_forward 1 data masks = Inr ?out"
    by (simp only: masked_mean_forward_def u t s sum.case)
  have v: "entry ?out [b, e] = (\<Sum>t<T. entry data [b, t, e] * entry masks [b, t])"
    if "b < B" "e < E" for b e
  proof -
    have "entry ?out [b, e] = sum_list (map (\<lambda>i. entry ?md [b, i, e]) [0..<T])" by simp
    also have "\<dots> = sum_list (map (\<lambda>i. entry data [b, i, e] * entry masks [b, i]) [0..<T])"
      using that by (intro sum_list_cong_upt) (simp add: broadcast_index3 broadcast_index3_last1 numeral_3_eq_3)
    finally show ?thesis by (simp add: sum_list_upt)
  qed
  show ?thesis using f v by (intro exI[of _ ?out]) simp
qed

text \<open>
  C1: for data of shape \<open>[B, T, E]\<close> and a mask of shape \<open>[B, T]\<close>, the forward pass
  of \<open>MaskedMeanPooler(dim=1)\<close> (the default, and the pooler the classifier builds)
  returns a tensor of shape \<open>[B, E]\<close> whose entry \<open>[b, e]\<close> is the sum over the
  sequence of the embedding entry times the mask value, with no division by a count:
  an all-zero mask gives the zero vector, an all-one mask the plain sum of the sequence.
\<close>

theorem masked_mean_is_masked_sum:
  assumes "shape data = [B, T, E]" and "shape masks = [B, T]"
  shows "\<exists>out. pooler_forward (MaskedMeanPooler 1) data masks = Inr out \<and> shape out = [B, E] \<and>
           (\<forall>b<B. \<forall>e<E. entry out [b, e] = (\<Sum>t<T. entry data [b, t, e] * entry masks [b, t])) \<and>
           ((\<forall>b<B. \<forall>t<T. entry masks [b, t] = 0) \<longrightarrow> (\<forall>b<B. \<forall>e<E. entry out [b, e] = 0)) \<and>
           ((\<forall>b<B. \<forall>t<T. entry masks [b, t] = 1) \<longrightarrow>
              (\<forall>b<B. \<forall>e<E. entry out [b, e] = (\<Sum>t<T. entry data [b, t, e])))"
proof -
  from masked_mean_value[OF assms] obtain out where
    f: "masked_mean_forward 1 data masks = Inr out" and s: "shape out = [B, E]" and
    v: "\<forall>b<B. \<forall>e<E. entry out [b, e] = (\<Sum>t<T. entry data [b, t, e] * entry masks [b, t])"
    by blast
  have z: "\<forall>b<B. \<forall>e<E. entry out [b, e] = 0" if "\<forall>b<B. \<forall>t<T. entry masks [b, t] = 0"
    using v that by simp
  have o: "\<forall>b<B. \<forall>e<E. entry out [b, e] = (\<Sum>t<T. entry data [b, t, e])"
    if "\<forall>b<B. \<forall>t<T. entry masks [b, t] = 1"
    using v that by simp
  show ?thesis using f s v z o by (intro exI[of _ out]) simp
qed

theorem masked_mean_is_masked_sum_witness:
  "shape (tensor3 [[[1, 2], [3, 4::real]]]) = [1, 2, 2] \<and> shape (tensor2 [[1, 1::real]]) = [1, 2]
   \<and> entry (tensor2 [[1, 1::real]]) [0, 0] = 1 \<and> entry (tensor2 [[1, 1::real]]) [0, 1] = 1
   \<and> (\<exists>out. pooler_forward (MaskedMeanPooler 1) (tensor3 [[[1, 2], [3, 4]]]) (tensor2 [[1, 1]]) = Inr out
            \<and> shape out = [1, 2] \<and> entry out [0, 0] = 4 \<and> entry out [0, 1] = 6)"
proof -
  have h: "shape (tensor3 [[[1, 2], [3, 4::real]]]) = [1, 2, 2]" "shape (tensor2 [[1, 1::real]]) = [1, 2]"
    by (simp_all add: tensor3_def tensor2_def)
  have ones: "\<forall>b<1::nat. \<forall>t<2::nat. entry (tensor2 [[1, 1::real]]) [b, t] = 1"
    by (simp add: tensor2_def less_Suc_eq numeral_2_eq_2)
  have s0: "(\<Sum>t<2::nat. entry (tensor3 [[[1, 2], [3, 4::real]]]) [0, t, 0]) = 4"
    by (simp add: tensor3_def numeral_2_eq_2)
  have s1: "(\<Sum>t<2::nat. entry (tensor3 [[[1, 2], [3, 4::real]]]) [0, t, 1]) = 6"
    by (simp add: tensor3_def numeral_2_eq_2)
  from masked_mean_is_masked_sum[OF h] obtain out where
    o: "pooler_forward (MaskedMeanPooler 1) (tensor3 [[[1, 2], [3, 4]]]) (tensor2 [[1, 1]]) = Inr out"
       "shape out = [1, 2]"
       "(\<forall>b<1::nat. \<forall>t<2::nat. entry (tensor2 [[1, 1::real]]) [b, t] = 1) \<longrightarrow>
          (\<forall>b<1. \<forall>e<2. entry out [b, e] = (\<Sum>t<2. entry (tensor3 [[[1, 2], [3, 4]]]) [b, t, e]))"
    by blast
  from o(3) ones have "entry out [0, 0] = 4" "entry out [0, 1] = 6" using s0 s1 by auto
  moreover have "entry (tensor2 [[1, 1::real]]) [0, 0] = 1" "entry (tensor2 [[1, 1::real]]) [0, 1] = 1"
    by (simp_all add: tensor2_def)
  ultimately show ?thesis using o(1,2) h by blast
qed

lemma linear_rank3:
  assumes "shape x = [B, T, E]" "in_features l = E"
  shows "linear_forward l x = Inr \<lparr>shape = [B, T, out_features l],
           entry = (\<lambda>idx. sum_list (map (\<lambda>i. entry x (butlast idx @ [i]) * weight l (last idx) i)
                                          [0..<in_features l]) + bias l (last idx))\<rparr>"
  using assms by (simp add: linear_forward_def)

lemma softmax1_rank3:
  assumes "shape s = [B, T, K]"
  shows "softmax 1 s = Inr \<lparr>shape = [B, T, K],
           entry = (\<lambda>idx. exp (entry s idx) /
                             sum_list (map (\<lambda>i. exp (entry s (idx[1 := i]))) [0..<T]))\<rparr>"
  using assms by (simp add: softmax_def norm_dim_def)

lemma exp_sum_pos:
  assumes "0 < (T::nat)"
  shows "0 < (\<Sum>i<T. exp (f i :: real))"
proof -
  have "{..<T} \<noteq> {}" using assms by auto
  then show ?thesis by (intro sum_pos) simp_all
qed

lemma softmax_sums_to_one:
  assumes "0 < (T::nat)"
  shows "(\<Sum>t<T. exp (f t) / (\<Sum>i<T. exp (f i))) = (1::real)"
proof -
  have "0 < (\<Sum>i<T. exp (f i))" using assms by (rule exp_sum_pos)
  then show ?thesis by (simp add: sum_divide_distrib[symmetric])
qed

lemma weighted_sum_value:
  assumes d: "shape data = [B, T, E]" and i: "in_features lin = E" and o: "out_features lin = 1"
    and T: "0 < T"
  shows "\<exists>out. weighted_sum_forward lin 1 data masks = Inr out \<and> shape out = [B, E] \<and>
           (\<forall>b<B. (\<forall>t<T. 0 < ws_weight lin data T E b t) \<and>
                  (\<Sum>t<T. ws_weight lin data T E b t) = 1 \<and>
                  (\<forall>e<E. entry out [b, e] =
                     (\<Sum>t<T. ws_weight lin data T E b t * entry data [b, t, e])))"
proof -
  let ?sc = "\<lparr>shape = [B, T, out_features lin],
           entry = (\<lambda>idx. sum_list (map (\<lambda>i. entry data (butlast idx @ [i]) * weight lin (last idx) i)
                                          [0..<in_features lin]) + bias lin (last idx))\<rparr>"
  let ?w = "\<lparr>shape = [B, T, out_features lin],
           entry = (\<lambda>idx. exp (entry ?sc idx) /
                             sum_list (map (\<lambda>i. exp (entry ?sc (idx[1 := i]))) [0..<T]))\<rparr>"
  let ?wd = "\<lparr>shape = [B, T, E],
           entry = (\<lambda>idx. entry ?w (broadcast_index [B, T, 1] idx) * entry data (broadcast_index [B, T, E] idx))\<rparr>"
  let ?out = "\<lparr>shape = [B, E],
           entry = (\<lambda>idx. sum_list (map (\<lambda>i. entry ?wd (take 1 idx @ [i] @ drop 1 idx)) [0..<T]))\<rparr>"
  let ?s = "\<lambda>b t. entry ?sc [b, t, 0]"
  let ?wt = "\<lambda>b t. exp (?s b t) / (\<Sum>i<T. exp (?s b i))"
  have l: "linear_forward lin data = Inr ?sc" using d i by (rule linear_rank3)
  have s: "softmax 1 ?sc = Inr ?w" by (rule softmax1_rank3) simp
  have t: "tmul ?w data = Inr ?wd" by (rule tmul_last1_left) (simp_all add: d o)
  have u: "tsum 1 ?wd = Inr ?out" by (rule tsum1_rank3) simp
  have f: "weighted_sum_forward lin 1 data masks = Inr ?out"
    by (simp only: weighted_sum_forward_def l s t u sum.case)
  have sc: "?s b t = ws_score lin data E b t" for b t
    by (simp add: ws_score_def sum_list_upt i)
  have wt: "?wt b t = ws_weight lin data T E b t" for b t
    by (simp only: ws_weight_def sc)
  have we: "entry ?w [b, t, 0] = ?wt b t" for b t
    by (simp add: sum_list_upt)
  have pos: "0 < ?wt b t" if "t < T" for b t
  proof -
    have "0 < (\<Sum>i<T. exp (?s b i))" using T by (rule exp_sum_pos)
    then show ?thesis by simp
  qed
  have one: "(\<Sum>t<T. ?wt b t) = 1" for b using T by (rule softmax_sums_to_one)
  have v: "entry ?out [b, e] = (\<Sum>t<T. ?wt b t * entry data [b, t, e])" if "b < B" "e < E" for b e
  proof -
    have "entry ?out [b, e] = sum_list (map (\<lambda>i. entry ?wd [b, i, e]) [0..<T])" by simp
    also have "\<dots> = sum_list (map (\<lambda>i. entry ?w [b, i, 0] * entry data [b, i, e]) [0..<T])"
      using that
      by (intro sum_list_cong_upt)
         (simp only: tensor.simps broadcast_index3 broadcast_index3_last1[unfolded One_nat_def[symmetric]])
    also have "\<dots> = sum_list (map (\<lambda>i. ?wt b i * entry data [b, i, e]) [0..<T])"
      by (simp only: we)
    finally show ?thesis by (simp only: sum_list_upt)
  qed
  show ?thesis
    apply (rule exI[of _ ?out])
    apply (intro conjI allI impI)
    subgoal by (rule f)
    subgoal by simp
    subgoal for b t using pos[of t b] by (simp only: wt)
    subgoal for b using one[of b] by (simp only: wt)
    subgoal for b e using v[of b e] by (simp only: wt)
    done
qed

text \<open>
  C8: for data of shape \<open>[B, T, E]\<close> with a non-empty sequence and any mask, the
  forward pass of \<open>WeightedSumPooler(E)\<close> (a linear map from \<open>E\<close> features to one
  score, \<open>dim = 1\<close>) returns the tensor of shape \<open>[B, E]\<close> whose entry \<open>[b, e]\<close> is
  the sum over all positions of the softmax weight of the position's score times the
  embedding entry; the weights are positive and sum to 1 along the sequence, and the
  result is the same for every other mask.
\<close>

theorem weighted_sum_is_convex_combination:
  assumes "shape data = [B, T, E]" and "in_features lin = E" and "out_features lin = 1"
    and "0 < T"
  shows "\<exists>out. pooler_forward (WeightedSumPooler lin 1) data masks = Inr out \<and> shape out = [B, E] \<and>
           (\<forall>b<B. (\<forall>t<T. 0 < ws_weight lin data T E b t) \<and>
                  (\<Sum>t<T. ws_weight lin data T E b t) = 1 \<and>
                  (\<forall>e<E. entry out [b, e] =
                     (\<Sum>t<T. ws_weight lin data T E b t * entry data [b, t, e]))) \<and>
           pooler_forward (WeightedSumPooler lin 1) data masks' = Inr out"
proof -
  from weighted_sum_value[OF assms, of masks] obtain out where
    o: "weighted_sum_forward lin 1 data masks = Inr out \<and> shape out = [B, E] \<and>
           (\<forall>b<B. (\<forall>t<T. 0 < ws_weight lin data T E b t) \<and>
                  (\<Sum>t<T. ws_weight lin data T E b t) = 1 \<and>
                  (\<forall>e<E. entry out [b, e] =
                     (\<Sum>t<T. ws_weight lin data T E b t * entry data [b, t, e])))"
    by blast
  have "weighted_sum_forward lin 1 data masks' = weighted_sum_forward lin 1 data masks"
    by (simp add: weighted_sum_forward_def)
  with o show ?thesis by (intro exI[of _ out]) simp
qed

theorem weighted_sum_is_convex_combination_witness:
  "shape (tensor3 [[[1, 2], [3, 4::real]]]) = [1, 2, 2] \<and> in_features example_linear = 2
   \<and> out_features example_linear = 1 \<and> (0::nat) < 2
   \<and> (\<exists>out. pooler_forward (WeightedSumPooler example_linear 1) (tensor3 [[[1, 2], [3, 4]]])
                 (tensor2 [[0, 0]]) = Inr out \<and> shape out = [1, 2]
            \<and> (\<Sum>t<2. ws_weight example_linear (tensor3 [[[1, 2], [3, 4]]]) 2 2 0 t) = 1)"
proof -
  have h: "shape (tensor3 [[[1, 2], [3, 4::real]]]) = [1, 2, 2]" "in_features example_linear = 2"
    "out_features example_linear = 1" "(0::nat) < 2"
    by (simp_all add: tensor3_def example_linear_def)
  from weighted_sum_is_convex_combination[OF h, of "tensor2 [[0, 0]]" "tensor2 [[0, 0]]"] h
  show ?thesis by auto
qed


section \<open>Properties of the fusion classifier\<close>

subsection \<open>Missing feature keys\<close>

lemma process_feature_missing:
  assumes "kwargs (f @ ''_ids'') = None \<or> kwargs (f @ ''_mask'') = None"
  shows "process_feature m kwargs f =
           Inl (KeyError (if kwargs (f @ ''_ids'') = None then f @ ''_ids'' else f @ ''_mask''))"
  using assms by (auto simp: process_feature_def split: option.splits)

lemma process_features_append:
  "process_features m kwargs (pre @ post) =
     (case process_features m kwargs pre of
        Inl e \<Rightarrow> Inl e
      | Inr ps \<Rightarrow> (case process_features m kwargs post of Inl e \<Rightarrow> Inl e | Inr qs \<Rightarrow> Inr (ps @ qs)))"
  by (induction pre) (auto split: sum.splits)

lemma process_features_missing:
  assumes "f \<in> set fs" "kwargs (f @ ''_ids'') = None \<or> kwargs (f @ ''_mask'') = None"
  shows "\<exists>e. process_features m kwargs fs = Inl e"
  using assms
proof (induction fs)
  case Nil
  then show ?case by simp
next
  case (Cons g fs)
  show ?case
  proof (cases "g = f")
    case True
    then show ?thesis using process_feature_missing[OF Cons.prems(2), of m] by simp
  next
    case False
    then have "f \<in> set fs" using Cons.prems(1) by simp
    then obtain e where "process_features m kwargs fs = Inl e" using Cons.IH Cons.prems(2) by blast
    then show ?thesis by (simp split: sum.splits)
  qed
qed

lemma forward_features_error:
  assumes "process_features m batch (map fst (additional_features m)) = Inl e"
  shows "\<exists>e'. forward m batch gen = Inl e'"
  using assms by (auto simp: forward_def split: option.splits sum.splits prod.splits)

lemma forward_features_error_exact:
  assumes "process_features m batch (map fst (additional_features m)) = Inl e"
    and "batch ''input_ids'' = Some input_ids" "batch ''token_type_ids'' = Some token_type_ids"
    and "batch ''attention_mask'' = Some attention_mask"
    and "run (bert_model m) (training m) gen input_ids token_type_ids attention_mask = Inr (po, g1)"
  shows "forward m batch gen = Inl e"
  using assms by (simp add: forward_def)

subsection \<open>The constructor\<close>

lemma init_model_fields:
  assumes "init_model reg ini from_pretrained n_labels path p feats pooling = Inr m"
  shows "num_labels m = n_labels" "dropout m = p"
    "additional_features m = (case feats of None \<Rightarrow> [] | Some fs \<Rightarrow> fs)"
    "out_features (classifier m) = n_labels"
    "in_features (classifier m) = hidden_size (bert_model m) + sum_list (map snd (additional_features m))"
    "make_pooler ini feats pooling = Inr (pooler m)"
    "make_embedders reg ini (additional_features m) = Inr (embedders m)"
    "training m"
  using assms by (auto simp: init_model_def Let_def split: sum.splits)



subsection \<open>The shape of the logits\<close>










lemma init_model_bert:
  assumes "init_model reg ini from_pretrained n_labels path p feats pooling = Inr m"
  shows "from_pretrained path = Inr (bert_model m)"
  using assms by (auto simp: init_model_def Let_def split: sum.splits)


lemma example_model_upostag: "\<exists>m. example_model (Some [(''upostag'', 2)]) None = Inr m"
  by (simp add: example_model_def init_model_def make_pooler_def example_from_pretrained_def
      make_embedder_def getitem_def example_registry_def nn_Embedding_def Let_def)

lemma example_plain_batch_keys:
  "example_plain_batch ''input_ids'' = Some (tensor2 [[5, 6]])"
  "example_plain_batch ''token_type_ids'' = Some (tensor2 [[0, 0]])"
  "example_plain_batch ''attention_mask'' = Some (tensor2 [[1, 1]])"
  "example_plain_batch (''upostag'' @ ''_ids'') = None"
  by (simp_all add: example_plain_batch_def)

lemma example_encoder_run:
  "run example_encoder mode gen (tensor2 [[5, 6]]) tt am =
     Inr (\<lparr>shape = [1, 2], entry = (\<lambda>idx. 1)\<rparr>, gen)"
  by (simp add: example_encoder_def tensor2_def)

text \<open>
  C7: if a configured feature's \<open>{feature}_ids\<close> or \<open>{feature}_mask\<close> key is missing
  from the batch, \<open>forward\<close> raises: it returns no logits.  When the encoder has run and
  the features configured before it were processed, the error is the \<open>KeyError\<close> of
  the missing key, raised at the lookup, before anything of that feature is computed.
\<close>

theorem forward_missing_feature_key:
  assumes "f \<in> fst ` set (additional_features m)"
    and "batch (f @ ''_ids'') = None \<or> batch (f @ ''_mask'') = None"
  shows "(\<exists>e. forward m batch gen = Inl e)
     \<and> (\<forall>pre post ps input_ids token_type_ids attention_mask po g1.
           map fst (additional_features m) = pre @ f # post
           \<and> process_features m batch pre = Inr ps
           \<and> batch ''input_ids'' = Some input_ids \<and> batch ''token_type_ids'' = Some token_type_ids
           \<and> batch ''attention_mask'' = Some attention_mask
           \<and> run (bert_model m) (training m) gen input_ids token_type_ids attention_mask = Inr (po, g1)
           \<longrightarrow> forward m batch gen =
                 Inl (KeyError (if batch (f @ ''_ids'') = None then f @ ''_ids'' else f @ ''_mask'')))"
proof -
  have "f \<in> set (map fst (additional_features m))" using assms(1) by simp
  then obtain e where "process_features m batch (map fst (additional_features m)) = Inl e"
    using process_features_missing assms(2) by blast
  then have a: "\<exists>e. forward m batch gen = Inl e" by (rule forward_features_error)
  have b: "forward m batch gen =
                 Inl (KeyError (if batch (f @ ''_ids'') = None then f @ ''_ids'' else f @ ''_mask''))"
    if h1: "map fst (additional_features m) = pre @ f # post"
      and h2: "process_features m batch pre = Inr ps"
      and h3: "batch ''input_ids'' = Some input_ids" and h4: "batch ''token_type_ids'' = Some token_type_ids"
      and h5: "batch ''attention_mask'' = Some attention_mask"
      and h6: "run (bert_model m) (training m) gen input_ids token_type_ids attention_mask = Inr (po, g1)"
    for pre post ps input_ids token_type_ids attention_mask po g1
  proof -
    have "process_features m batch (map fst (additional_features m)) =
            Inl (KeyError (if batch (f @ ''_ids'') = None then f @ ''_ids'' else f @ ''_mask''))"
      unfolding h1 process_features_append h2
      using process_feature_missing[OF assms(2), of m] by simp
    then show ?thesis using h3 h4 h5 h6 by (rule forward_features_error_exact)
  qed
  show ?thesis using a b by blast
qed

theorem forward_missing_feature_key_witness:
  "\<exists>m. example_model (Some [(''upostag'', 2)]) None = Inr m \<and>
       ''upostag'' \<in> fst ` set (additional_features m) \<and>
       example_plain_batch (''upostag'' @ ''_ids'') = None \<and>
       forward m example_plain_batch example_generator = Inl (KeyError ''upostag_ids'')"
proof -
  obtain m where m: "example_model (Some [(''upostag'', 2)]) None = Inr m"
    using example_model_upostag by blast
  then have i: "init_model example_registry example_initializer example_from_pretrained 2
                  (Some ''bert'') (1 / 2) (Some [(''upostag'', 2)]) None = Inr m"
    by (simp add: example_model_def)
  have b: "bert_model m = example_encoder"
    using init_model_bert[OF i] by (simp add: example_from_pretrained_def)
  have af: "additional_features m = [(''upostag'', 2)]" using init_model_fields(3)[OF i] by simp
  have h1: "''upostag'' \<in> fst ` set (additional_features m)" unfolding af by simp
  have h2: "example_plain_batch (''upostag'' @ ''_ids'') = None \<or>
            example_plain_batch (''upostag'' @ ''_mask'') = None"
    using example_plain_batch_keys(4) by simp
  have r: "run (bert_model m) (training m) example_generator (tensor2 [[5, 6]]) (tensor2 [[0, 0]]) (tensor2 [[1, 1]])
             = Inr (\<lparr>shape = [1, 2], entry = (\<lambda>idx. 1)\<rparr>, example_generator)"
    unfolding b by (rule example_encoder_run)
  have sp: "map fst (additional_features m) = [] @ ''upostag'' # []" unfolding af by simp
  have pf: "process_features m example_plain_batch [] = Inr []" by simp
  from forward_missing_feature_key[OF h1 h2, of example_generator]
  have "forward m example_plain_batch example_generator =
          Inl (KeyError (if example_plain_batch (''upostag'' @ ''_ids'') = None
                         then ''upostag'' @ ''_ids'' else ''upostag'' @ ''_mask''))"
    using sp pf example_plain_batch_keys(1-3) r by blast
  then have "forward m example_plain_batch example_generator = Inl (KeyError ''upostag_ids'')"
    using example_plain_batch_keys(4) by simp
  then show ?thesis using m h1 example_plain_batch_keys(4) by blast
qed



subsection \<open>Batches on which the forward pass returns\<close>




















section \<open>Properties of the validation pass\<close>

lemma validate_model:
  assumes "validate c m dev_dataset gen = Inr (r, m', gen')"
  shows "m' = m\<lparr>training := False\<rparr>"
  using assms by (auto simp: validate_def Let_def split: if_splits sum.splits prod.splits)

lemma init_model_classifier:
  assumes "init_model reg ini from_pretrained n_labels path p feats pooling = Inr m"
  shows "classifier m = \<lparr>in_features = hidden_size (bert_model m) + sum_list (map snd (additional_features m)),
                          out_features = n_labels,
                          weight = classifier_weight ini, bias = classifier_bias ini\<rparr>"
  using assms by (auto simp: init_model_def Let_def split: sum.splits)

lemma example_chunks: "chunks 16 example_dev_dataset = [example_dev_dataset]"
  by (simp add: chunks_def example_dev_dataset_def)

lemma first_max_pair:
  "first_max [2, 0] = 0" "first_max [0, 2] = 1"
  by (simp_all add: first_max_def)

lemma example_dataset_length: "length example_dev_dataset = 1"
  by (simp add: example_dev_dataset_def)

lemma example_validate_batches_eval:
  assumes b: "bert_model m = example_encoder" and f: "additional_features m = []"
    and d: "dropout m = 1 / 2"
    and c: "classifier m = \<lparr>in_features = 2, out_features = 2,
                          weight = (\<lambda>out i. if out = i then 1 else 0), bias = (\<lambda>out. 0)\<rparr>"
    and g: "g 0 [0, 0] \<noteq> g 0 [0, 1]"
  shows "\<exists>l. validate_batches m [example_dev_dataset] g 0 0 =
           Inr (l, (if g 0 [0, 0] then 1 else 0), (\<lambda>n. g (Suc n)))"
  using g
  by (cases "g 0 [0, 0]"; cases "g 0 [0, 1]")
     (simp_all add: Let_def upt_conv_Cons
      collate_def example_dev_dataset_def getitem_def stack_def forward_def b f d c
      example_encoder_def fuse_def F_dropout_def linear_forward_def cross_entropy_def
      argmax1_def count_equal_def first_max_pair)

lemma example_validate_eval:
  assumes b: "bert_model m = example_encoder" and f: "additional_features m = []"
    and d: "dropout m = 1 / 2"
    and c: "classifier m = \<lparr>in_features = 2, out_features = 2,
                          weight = (\<lambda>out i. if out = i then 1 else 0), bias = (\<lambda>out. 0)\<rparr>"
    and g: "g 0 [0, 0] \<noteq> g 0 [0, 1]"
  shows "\<exists>l. validate (example_controller 5 5) m example_dev_dataset g =
           Inr (\<lparr>loss = l, accuracy = (if g 0 [0, 0] then 1 else 0)\<rparr>,
                m\<lparr>training := False\<rparr>, (\<lambda>n. g (Suc n)))"
proof -
  let ?m = "m\<lparr>training := False\<rparr>"
  have "\<exists>l. validate_batches ?m [example_dev_dataset] g 0 0 =
           Inr (l, (if g 0 [0, 0] then 1 else 0), (\<lambda>n. g (Suc n)))"
    using g by (intro example_validate_batches_eval) (simp_all add: b f d c)
  then obtain l where "validate_batches ?m [example_dev_dataset] g 0 0 =
           Inr (l, (if g 0 [0, 0] then 1 else 0), (\<lambda>n. g (Suc n)))" by blast
  then show ?thesis
    by (simp add: validate_def example_controller_def example_chunks example_dataset_length)
qed

lemma example_model_plain_fields:
  assumes "example_model None None = Inr m"
  shows "bert_model m = example_encoder" "additional_features m = []" "dropout m = 1 / 2"
    "classifier m = \<lparr>in_features = 2, out_features = 2,
                     weight = (\<lambda>out i. if out = i then 1 else 0), bias = (\<lambda>out. 0)\<rparr>"
    "training m"
  using assms
  by (auto simp: example_model_def init_model_def make_pooler_def example_from_pretrained_def
      example_initializer_def example_encoder_def Let_def)

text \<open>
  C4, where the code departs from it.  \<open>validate\<close> returns the module with unchanged
  parameters and the mode flag cleared (lemma \<open>validate_model\<close>), but the dropout of
  \<open>forward\<close> is \<open>F.dropout\<close> with its default \<open>training=True\<close> and stays active in
  evaluation mode.  On the example classifier (dropout 0.5) and a development set of one
  example, two consecutive calls of \<open>validate\<close>, the second on the module and the
  generator the first one left, return accuracy 1 and accuracy 0.
\<close>

theorem validate_dropout_not_identity:
  "\<exists>m r1 g1 r2 g2.
     example_model None None = Inr m \<and> training m \<and>
     validate (example_controller 5 5) m example_dev_dataset example_generator
       = Inr (r1, m\<lparr>training := False\<rparr>, g1) \<and>
     validate (example_controller 5 5) (m\<lparr>training := False\<rparr>) example_dev_dataset g1
       = Inr (r2, m\<lparr>training := False\<rparr>, g2) \<and>
     accuracy r1 = 1 \<and> accuracy r2 = 0"
proof -
  obtain m where m: "example_model None None = Inr m"
    by (auto simp: example_model_def init_model_def make_pooler_def example_from_pretrained_def)
  note fl = example_model_plain_fields[OF m]
  let ?m1 = "m\<lparr>training := False\<rparr>"
  let ?g1 = "\<lambda>n. example_generator (Suc n)"
  have g0: "example_generator 0 [0, 0] \<noteq> example_generator 0 [0, 1]"
    by (simp add: example_generator_def)
  have g1: "?g1 0 [0, 0] \<noteq> ?g1 0 [0, 1]"
    by (simp add: example_generator_def)
  from example_validate_eval[of m example_generator, OF fl(1-4) g0] obtain l1 where
    v1: "validate (example_controller 5 5) m example_dev_dataset example_generator =
           Inr (\<lparr>loss = l1, accuracy = 1\<rparr>, ?m1, ?g1)"
    by (auto simp: example_generator_def)
  have fl1: "bert_model ?m1 = example_encoder" "additional_features ?m1 = []" "dropout ?m1 = 1 / 2"
    "classifier ?m1 = \<lparr>in_features = 2, out_features = 2,
                     weight = (\<lambda>out i. if out = i then 1 else 0), bias = (\<lambda>out. 0)\<rparr>"
    using fl by simp_all
  from example_validate_eval[of ?m1 ?g1, OF fl1 g1] obtain l2 where
    v2: "validate (example_controller 5 5) ?m1 example_dev_dataset ?g1 =
           Inr (\<lparr>loss = l2, accuracy = 0\<rparr>, ?m1, (\<lambda>n. ?g1 (Suc n)))"
    by (auto simp: example_generator_def)
  show ?thesis
    apply (rule exI[of _ m], rule exI[of _ "\<lparr>loss = l1, accuracy = 1\<rparr>"], rule exI[of _ ?g1],
           rule exI[of _ "\<lparr>loss = l2, accuracy = 0\<rparr>"], rule exI[of _ "\<lambda>n. ?g1 (Suc n)"])
    using m fl(5) v1 v2 by simp
qed

section \<open>Properties of the embedding tables under training\<close>

lemma adamw_step_frozen:
  assumes "frozen_row pad es" "\<And>j. grad pad j = 0"
  shows "frozen_row pad (adamw_step h grad es)"
  using assms by (simp add: frozen_row_def adamw_step_def Let_def)

lemma embedding_backward_padding: "embedding_backward emb ids upstream (padding_idx emb) j = 0"
  by (simp add: embedding_backward_def)

lemma adamw_step_fields:
  "num_embeddings (fst (adamw_step h grad es)) = num_embeddings (fst es)"
  "embedding_dim (fst (adamw_step h grad es)) = embedding_dim (fst es)"
  by (simp_all add: adamw_step_def Let_def)

lemma train_table_frozen:
  "frozen_row pad es \<Longrightarrow> frozen_row pad (train_table h batches es)"
proof (induction batches arbitrary: es)
  case Nil
  then show ?case by (simp add: train_table_def)
next
  case (Cons b batches)
  have p: "padding_idx (fst es) = pad" using Cons.prems by (simp add: frozen_row_def)
  have "frozen_row pad (adamw_step h (embedding_backward (fst es) (fst b) (snd b)) es)"
    using Cons.prems by (rule adamw_step_frozen) (simp add: p[symmetric] embedding_backward_padding)
  from Cons.IH[OF this] show ?case by (simp add: train_table_def)
qed

lemma train_table_fields:
  "num_embeddings (fst (train_table h batches es)) = num_embeddings (fst es) \<and>
   embedding_dim (fst (train_table h batches es)) = embedding_dim (fst es)"
proof (induction batches arbitrary: es)
  case Nil
  then show ?case by (simp add: train_table_def)
next
  case (Cons b batches)
  from Cons.IH[of "adamw_step h (embedding_backward (fst es) (fst b) (snd b)) es"]
  show ?case by (simp add: train_table_def adamw_step_fields)
qed

lemma nn_Embedding_frozen:
  assumes "nn_Embedding n d pad init = Inr emb"
  shows "frozen_row pad (emb, initial_state)"
  using assms by (auto simp: nn_Embedding_def frozen_row_def initial_state_def split: if_splits)

text \<open>
  C5: an embedding table built by the constructor with a padding index keeps the row of
  that index through any sequence of training batches (of any number of \<open>train\<close>
  calls): the row is the one the constructor set, and looking the padding index up
  yields the same vector before and after, for every learning rate of the controller.
\<close>

theorem padding_row_frozen:
  assumes "nn_Embedding n d pad init = Inr emb"
  shows "padding_idx (fst (train_table (optim_AdamW learning_rate) batches (emb, initial_state))) = pad
     \<and> (\<forall>j. table (fst (train_table (optim_AdamW learning_rate) batches (emb, initial_state))) pad j
              = table emb pad j)
     \<and> (\<forall>ids out out' idx j.
           embedding_forward emb ids = Inr out
           \<and> embedding_forward (fst (train_table (optim_AdamW learning_rate) batches (emb, initial_state))) ids
               = Inr out'
           \<and> entry ids idx = int pad
           \<longrightarrow> entry out' (idx @ [j]) = entry out (idx @ [j]))"
proof -
  let ?es = "train_table (optim_AdamW learning_rate) batches (emb, initial_state)"
  have f0: "frozen_row pad (emb, initial_state)" using assms(1) by (rule nn_Embedding_frozen)
  then have f: "frozen_row pad ?es" by (rule train_table_frozen)
  have a: "padding_idx (fst ?es) = pad" using f by (simp add: frozen_row_def)
  have b: "table (fst ?es) pad j = table emb pad j" for j
    using f f0 by (simp add: frozen_row_def)
  have c: "entry out' (idx @ [j]) = entry out (idx @ [j])"
    if "embedding_forward emb ids = Inr out \<and> embedding_forward (fst ?es) ids = Inr out'
        \<and> entry ids idx = int pad" for ids out out' idx j
    using that b by (auto simp: embedding_forward_def split: if_splits)
  show ?thesis using a b c by blast
qed

theorem padding_row_frozen_witness:
  "nn_Embedding 3 2 0 (\<lambda>v j. 1) = Inr \<lparr>num_embeddings = 3, embedding_dim = 2, padding_idx = 0,
                                        table = (\<lambda>v j. if v = 0 then 0 else 1)\<rparr>
   \<and> table (fst (train_table (optim_AdamW (2 / 100000))
                   [(tensor2 [[1, 0]], \<lparr>shape = [1, 2, 2], entry = (\<lambda>idx. 1)\<rparr>)]
                   (\<lparr>num_embeddings = 3, embedding_dim = 2, padding_idx = 0,
                      table = (\<lambda>v j. if v = 0 then 0 else 1)\<rparr>, initial_state))) 0 1 = 0"
proof -
  let ?emb = "\<lparr>num_embeddings = 3, embedding_dim = 2, padding_idx = 0,
                table = (\<lambda>v j. if v = 0 then 0 else (1::real))\<rparr>"
  have h1: "nn_Embedding 3 2 0 (\<lambda>v j. 1) = Inr ?emb" by (simp add: nn_Embedding_def)
  from padding_row_frozen[OF h1, of "2 / 100000"
      "[(tensor2 [[1, 0]], \<lparr>shape = [1, 2, 2], entry = (\<lambda>idx. 1)\<rparr>)]"]
  have "table (fst (train_table (optim_AdamW (2 / 100000))
                   [(tensor2 [[1, 0]], \<lparr>shape = [1, 2, 2], entry = (\<lambda>idx. 1)\<rparr>)]
                   (?emb, initial_state))) 0 1 = table ?emb 0 1" by blast
  then show ?thesis using h1 by simp
qed

lemma example_row_moves:
  "table (fst (train_table (optim_AdamW (2 / 100000))
                   [(tensor2 [[1, 0]], \<lparr>shape = [1, 2, 2], entry = (\<lambda>idx. 1)\<rparr>)]
                   (\<lparr>num_embeddings = 3, embedding_dim = 2, padding_idx = 0,
                      table = (\<lambda>v j. if v = 0 then 0 else 1)\<rparr>, initial_state))) 1 0 < 1"
  by (simp add: train_table_def adamw_step_def embedding_backward_def tensor2_def initial_state_def
      optim_AdamW_def Let_def upt_conv_Cons field_simps)

end
